theory Spec2Isabelle
  imports Main "HOL-Library.Word"
begin

section \<open>The escrow contract (contracts/VeoPayment.sol)\<close>

text \<open>
  Solidity 0.8.19: \<open>uint256\<close> is a 256-bit word whose \<open>+\<close> and \<open>++\<close> are checked
  (an overflow reverts with a panic), \<open>address\<close> is a 160-bit word, a mapping is a
  total function whose unset entries hold the zero value of the struct.
  A transaction either returns the new contract state (\<open>Inr\<close>) or reverts (\<open>Inl\<close>),
  and a reverted transaction leaves the state it started from.
\<close>

type_synonym address = "160 word"
type_synonym uint256 = "256 word"

datatype PaymentTier = BASIC | PREMIUM | ENTERPRISE

record Payment =
  payer :: address
  amount :: uint256
  tier :: PaymentTier
  paymentId :: string
  completed :: bool
  timestamp :: uint256

datatype Event =
    PaymentReceived address string uint256 PaymentTier uint256
  | PaymentRefunded address string uint256
  | TierPriceUpdated PaymentTier uint256

text \<open>
  The storage of the contract. \<open>owner\<close>, \<open>paused\<close> and \<open>entered\<close> are the state
  variables of the inherited Ownable, Pausable and ReentrancyGuard (OpenZeppelin 4, as
  the import paths say: the deployer is the first owner, and the modifiers
  \<open>onlyOwner\<close>, \<open>whenNotPaused\<close> and \<open>nonReentrant\<close> revert with the messages
  given below); \<open>balance\<close> is \<open>address(this).balance\<close> in wei; \<open>events\<close> is the log
  of the events the contract declares, oldest first.
\<close>

record VeoPayment =
  payments :: "string \<Rightarrow> Payment"
  tierPrices :: "PaymentTier \<Rightarrow> uint256"
  userPaymentCount :: "address \<Rightarrow> uint256"
  paymentIds :: "string list"
  totalPaymentsReceived :: uint256
  totalAmountCollected :: uint256
  treasuryWallet :: address
  refundWindow :: uint256
  owner :: address
  paused :: bool
  entered :: bool
  balance :: nat
  events :: "Event list"

text \<open>
  What a call brings with it: \<open>msg.sender\<close>, \<open>msg.value\<close>, \<open>block.timestamp\<close>, and,
  for every address, whether it accepts the ether that a low-level
  \<open>call{value: ...}("")\<close> of this transaction sends to it (the recipient is outside the
  contract; it is taken not to call back into it).
\<close>

record Msg =
  msg_sender :: address
  msg_value :: uint256
  block_timestamp :: uint256
  callee_accepts :: "address \<Rightarrow> bool"

datatype Revert = Revert string | Panic_overflow

definition zero_Payment :: Payment where
  "zero_Payment =
     \<lparr>payer = 0, amount = 0, tier = BASIC, paymentId = [], completed = False, timestamp = 0\<rparr>"

text \<open>Checked \<open>uint256\<close> addition: \<open>None\<close> is the overflow panic.\<close>

definition checked_add :: "uint256 \<Rightarrow> uint256 \<Rightarrow> uint256 option" where
  "checked_add a b = (if unat a + unat b < 2 ^ 256 then Some (a + b) else None)"

text \<open>
  \<open>to.call{value: v}("")\<close>: it fails when the contract holds less than \<open>v\<close> or the
  recipient \<open>to\<close> refuses; otherwise \<open>v\<close> wei leave the contract.
\<close>

definition call_value ::
  "Msg \<Rightarrow> VeoPayment \<Rightarrow> address \<Rightarrow> uint256 \<Rightarrow> VeoPayment option" where
  "call_value m s to v =
     (if unat v \<le> balance s \<and> callee_accepts m to
      then Some (s\<lparr>balance := balance s - unat v\<rparr>) else None)"

definition constructor :: "Msg \<Rightarrow> address \<Rightarrow> Revert + VeoPayment" where
  "constructor m treasury =
     (if msg_value m \<noteq> 0 then Inl (Revert [])
      else if \<not> treasury \<noteq> 0 then Inl (Revert ''Invalid treasury wallet'')
      else Inr \<lparr>payments = (\<lambda>_. zero_Payment),
                tierPrices = ((\<lambda>_. 0)(BASIC := 5000000000000000,
                                       PREMIUM := 10000000000000000,
                                       ENTERPRISE := 25000000000000000)),
                userPaymentCount = (\<lambda>_. 0),
                paymentIds = [],
                totalPaymentsReceived = 0,
                totalAmountCollected = 0,
                treasuryWallet = treasury,
                refundWindow = 86400,
                owner = msg_sender m,
                paused = False,
                entered = False,
                balance = 0,
                events = []\<rparr>)"

definition processPayment ::
  "Msg \<Rightarrow> VeoPayment \<Rightarrow> string \<Rightarrow> PaymentTier \<Rightarrow> Revert + VeoPayment" where
  "processPayment m s0 pid t =
     (let s = s0\<lparr>balance := balance s0 + unat (msg_value m)\<rparr> in
      if entered s then Inl (Revert ''ReentrancyGuard: reentrant call'')
      else if paused s then Inl (Revert ''Pausable: paused'')
      else if \<not> (length pid > 0) then Inl (Revert ''Invalid payment ID'')
      else if \<not> (msg_value m = tierPrices s t) then Inl (Revert ''Incorrect payment amount'')
      else if \<not> (payer (payments s pid) = 0) then Inl (Revert ''Payment ID already exists'')
      else
        (let s1 = s\<lparr>payments := (payments s)(pid :=
                      \<lparr>payer = msg_sender m, amount = msg_value m, tier = t,
                       paymentId = pid, completed = True,
                       timestamp = block_timestamp m\<rparr>)\<rparr>;
             s2 = s1\<lparr>paymentIds := paymentIds s1 @ [pid]\<rparr>
         in (case checked_add (userPaymentCount s2 (msg_sender m)) 1 of
               None \<Rightarrow> Inl Panic_overflow
             | Some c \<Rightarrow>
         (let s3 = s2\<lparr>userPaymentCount := (userPaymentCount s2)(msg_sender m := c)\<rparr>
          in (case checked_add (totalPaymentsReceived s3) 1 of
                None \<Rightarrow> Inl Panic_overflow
              | Some n \<Rightarrow>
         (let s4 = s3\<lparr>totalPaymentsReceived := n\<rparr>
          in (case checked_add (totalAmountCollected s4) (msg_value m) of
                None \<Rightarrow> Inl Panic_overflow
              | Some a \<Rightarrow>
         (let s5 = s4\<lparr>totalAmountCollected := a\<rparr>
          in (case call_value m s5 (treasuryWallet s5) (msg_value m) of
                None \<Rightarrow> Inl (Revert ''Treasury transfer failed'')
              | Some s6 \<Rightarrow>
                  Inr (s6\<lparr>events := events s6 @
                         [PaymentReceived (msg_sender m) pid (msg_value m) t
                            (block_timestamp m)]\<rparr>))))))))))"

definition requestRefund :: "Msg \<Rightarrow> VeoPayment \<Rightarrow> string \<Rightarrow> Revert + VeoPayment" where
  "requestRefund m s pid =
     (if msg_value m \<noteq> 0 then Inl (Revert [])
      else if entered s then Inl (Revert ''ReentrancyGuard: reentrant call'')
      else
        (let payment = payments s pid in
         if \<not> (payer payment = msg_sender m) then Inl (Revert ''Not your payment'')
         else if \<not> completed payment then Inl (Revert ''Payment not completed'')
         else
           (case checked_add (timestamp payment) (refundWindow s) of
              None \<Rightarrow> Inl Panic_overflow
            | Some deadline \<Rightarrow>
                (if \<not> (block_timestamp m \<le> deadline)
                 then Inl (Revert ''Refund window expired'')
                 else
                   (let refundAmount = amount payment;
                        s1 = s\<lparr>payments :=
                                 (payments s)(pid := payment\<lparr>completed := False\<rparr>)\<rparr>
                    in (case call_value m s1 (msg_sender m) refundAmount of
                          None \<Rightarrow> Inl (Revert ''Refund transfer failed'')
                        | Some s2 \<Rightarrow>
                            Inr (s2\<lparr>events := events s2 @
                                   [PaymentRefunded (msg_sender m) pid refundAmount]\<rparr>)))))))"

text \<open>\<open>onlyOwner\<close> on a function that is not payable.\<close>

definition onlyOwner :: "Msg \<Rightarrow> VeoPayment \<Rightarrow> Revert option" where
  "onlyOwner m s =
     (if msg_value m \<noteq> 0 then Some (Revert [])
      else if \<not> owner s = msg_sender m then Some (Revert ''Ownable: caller is not the owner'')
      else None)"

definition updateTierPrice ::
  "Msg \<Rightarrow> VeoPayment \<Rightarrow> PaymentTier \<Rightarrow> uint256 \<Rightarrow> Revert + VeoPayment" where
  "updateTierPrice m s t newPrice =
     (case onlyOwner m s of Some e \<Rightarrow> Inl e | None \<Rightarrow>
      if \<not> newPrice > 0 then Inl (Revert ''Price must be greater than 0'')
      else Inr (s\<lparr>tierPrices := (tierPrices s)(t := newPrice),
                  events := events s @ [TierPriceUpdated t newPrice]\<rparr>))"

definition updateTreasuryWallet :: "Msg \<Rightarrow> VeoPayment \<Rightarrow> address \<Rightarrow> Revert + VeoPayment" where
  "updateTreasuryWallet m s newTreasury =
     (case onlyOwner m s of Some e \<Rightarrow> Inl e | None \<Rightarrow>
      if \<not> newTreasury \<noteq> 0 then Inl (Revert ''Invalid treasury address'')
      else Inr (s\<lparr>treasuryWallet := newTreasury\<rparr>))"

definition updateRefundWindow :: "Msg \<Rightarrow> VeoPayment \<Rightarrow> uint256 \<Rightarrow> Revert + VeoPayment" where
  "updateRefundWindow m s newWindow =
     (case onlyOwner m s of Some e \<Rightarrow> Inl e | None \<Rightarrow>
      if \<not> newWindow > 0 then Inl (Revert ''Window must be greater than 0'')
      else Inr (s\<lparr>refundWindow := newWindow\<rparr>))"

definition getPayment ::
  "VeoPayment \<Rightarrow> string \<Rightarrow> address \<times> uint256 \<times> PaymentTier \<times> bool \<times> uint256" where
  "getPayment s pid =
     (let payment = payments s pid
      in (payer payment, amount payment, tier payment, completed payment, timestamp payment))"

definition getUserPaymentCount :: "VeoPayment \<Rightarrow> address \<Rightarrow> uint256" where
  "getUserPaymentCount s user = userPaymentCount s user"

definition getTierPrice :: "VeoPayment \<Rightarrow> PaymentTier \<Rightarrow> uint256" where
  "getTierPrice s t = tierPrices s t"

definition getTotalPayments :: "VeoPayment \<Rightarrow> nat" where
  "getTotalPayments s = length (paymentIds s)"

definition pause :: "Msg \<Rightarrow> VeoPayment \<Rightarrow> Revert + VeoPayment" where
  "pause m s =
     (case onlyOwner m s of Some e \<Rightarrow> Inl e | None \<Rightarrow>
      if paused s then Inl (Revert ''Pausable: paused'')
      else Inr (s\<lparr>paused := True\<rparr>))"

definition unpause :: "Msg \<Rightarrow> VeoPayment \<Rightarrow> Revert + VeoPayment" where
  "unpause m s =
     (case onlyOwner m s of Some e \<Rightarrow> Inl e | None \<Rightarrow>
      if \<not> paused s then Inl (Revert ''Pausable: not paused'')
      else Inr (s\<lparr>paused := False\<rparr>))"

definition emergencyWithdraw :: "Msg \<Rightarrow> VeoPayment \<Rightarrow> Revert + VeoPayment" where
  "emergencyWithdraw m s =
     (case onlyOwner m s of Some e \<Rightarrow> Inl e | None \<Rightarrow>
      if \<not> balance s > 0 then Inl (Revert ''No balance to withdraw'')
      else if \<not> callee_accepts m (owner s) then Inl (Revert ''Emergency withdrawal failed'')
      else Inr (s\<lparr>balance := 0\<rparr>))"

text \<open>
  The two state-changing functions the contract inherits from Ownable and does not
  override; they write \<open>owner\<close> only.
\<close>

definition transferOwnership :: "Msg \<Rightarrow> VeoPayment \<Rightarrow> address \<Rightarrow> Revert + VeoPayment" where
  "transferOwnership m s newOwner =
     (case onlyOwner m s of Some e \<Rightarrow> Inl e | None \<Rightarrow>
      if \<not> newOwner \<noteq> 0 then Inl (Revert ''Ownable: new owner is the zero address'')
      else Inr (s\<lparr>owner := newOwner\<rparr>))"

definition renounceOwnership :: "Msg \<Rightarrow> VeoPayment \<Rightarrow> Revert + VeoPayment" where
  "renounceOwnership m s =
     (case onlyOwner m s of Some e \<Rightarrow> Inl e | None \<Rightarrow> Inr (s\<lparr>owner := 0\<rparr>))"

subsection \<open>Transactions and traces\<close>

datatype Call =
    ProcessPayment string PaymentTier
  | RequestRefund string
  | UpdateTierPrice PaymentTier uint256
  | UpdateTreasuryWallet address
  | UpdateRefundWindow uint256
  | Pause
  | Unpause
  | EmergencyWithdraw
  | TransferOwnership address
  | RenounceOwnership

fun exec :: "Msg \<Rightarrow> Call \<Rightarrow> VeoPayment \<Rightarrow> Revert + VeoPayment" where
  "exec m (ProcessPayment pid t) s = processPayment m s pid t"
| "exec m (RequestRefund pid) s = requestRefund m s pid"
| "exec m (UpdateTierPrice t p) s = updateTierPrice m s t p"
| "exec m (UpdateTreasuryWallet a) s = updateTreasuryWallet m s a"
| "exec m (UpdateRefundWindow w) s = updateRefundWindow m s w"
| "exec m Pause s = pause m s"
| "exec m Unpause s = unpause m s"
| "exec m EmergencyWithdraw s = emergencyWithdraw m s"
| "exec m (TransferOwnership a) s = transferOwnership m s a"
| "exec m RenounceOwnership s = renounceOwnership m s"

text \<open>The state after a transaction: a revert restores the state before it.\<close>

definition apply_tx :: "Msg \<times> Call \<Rightarrow> VeoPayment \<Rightarrow> VeoPayment" where
  "apply_tx tx s = (case exec (fst tx) (snd tx) s of Inl _ \<Rightarrow> s | Inr s' \<Rightarrow> s')"

fun run :: "(Msg \<times> Call) list \<Rightarrow> VeoPayment \<Rightarrow> VeoPayment" where
  "run [] s = s"
| "run (tx # txs) s = run txs (apply_tx tx s)"

text \<open>A call succeeds when it does not revert.\<close>

definition succeeds :: "Revert + VeoPayment \<Rightarrow> bool" where
  "succeeds r = (case r of Inl _ \<Rightarrow> False | Inr _ \<Rightarrow> True)"

text \<open>How many \<open>processPayment\<close> calls for \<open>pid\<close> succeed along a trace.\<close>

fun paid_count :: "string \<Rightarrow> (Msg \<times> Call) list \<Rightarrow> VeoPayment \<Rightarrow> nat" where
  "paid_count pid [] s = 0"
| "paid_count pid (tx # txs) s =
     (case snd tx of
        ProcessPayment pid' t \<Rightarrow>
          (if pid' = pid \<and> succeeds (exec (fst tx) (snd tx) s) then 1 else 0)
      | _ \<Rightarrow> 0)
     + paid_count pid txs (apply_tx tx s)"


section \<open>The off-chain payment store (paymentOperations in lib/prisma)\<close>

text \<open>
  A row of the \<open>payment\<close> table. The fields carry the prefix \<open>p_\<close> (the contract's
  struct already owns the plain names); times are milliseconds since the epoch; an
  optional column is an \<open>option\<close>. The table is a map from \<open>paymentId\<close>, the unique
  key all three operations select by.
\<close>

datatype PaymentStatus = PENDING | PROCESSING | COMPLETED | FAILED | EXPIRED | REFUNDED

record PaymentRow =
  p_paymentId :: string
  p_briefId :: "string option"
  p_brandId :: string
  p_creatorId :: "string option"
  p_amount :: string
  p_currency :: "string option"
  p_network :: "string option"
  p_paymentUrl :: "string option"
  p_expiresAt :: "nat option"
  p_memo :: "string option"
  p_status :: PaymentStatus
  p_createdAt :: nat
  p_completedAt :: "nat option"
  p_transactionHash :: "string option"
  p_blockNumber :: "nat option"
  p_gasUsed :: "nat option"

type_synonym PaymentTable = "string \<rightharpoonup> PaymentRow"

text \<open>The \<open>data\<close> argument of \<open>createRequest\<close>, prefix \<open>c_\<close>.\<close>

record CreateData =
  c_paymentId :: string
  c_briefId :: "string option"
  c_brandId :: string
  c_creatorId :: "string option"
  c_amount :: string
  c_currency :: "string option"
  c_network :: "string option"
  c_paymentUrl :: "string option"
  c_expiresAt :: "nat option"
  c_memo :: "string option"

text \<open>The \<open>transactionData\<close> argument of \<open>updateStatus\<close>, prefix \<open>t_\<close>.\<close>

record TransactionData =
  t_transactionHash :: "string option"
  t_blockNumber :: "nat option"
  t_gasUsed :: "nat option"

text \<open>
  What the handlers can have thrown at them: \<open>RangeError\<close> by
  \<open>crypto.timingSafeEqual\<close> on buffers of different byte length, \<open>SyntaxError\<close> by
  \<open>JSON.parse\<close>, and the two known request errors of the Prisma client:
  \<open>RecordNotFound\<close> (an \<open>update\<close> whose \<open>where\<close> selects no row) and
  \<open>UniqueConstraint\<close> (a \<open>create\<close> under a key that exists).
\<close>

datatype JsError = RangeError | SyntaxError | RecordNotFound | UniqueConstraint

text \<open>
  Modelled from the spec: the Prisma schema is not part of the sources, so the
  defaults of the columns \<open>createRequest\<close> does not pass are taken from the spec
  (the Payment Request Generator "persists a PENDING record") and from the response
  of the creating route, which reports \<open>status: 'PENDING'\<close>; \<open>createdAt\<close> is the
  time of creation.
\<close>

definition createRequest ::
  "nat \<Rightarrow> PaymentTable \<Rightarrow> CreateData \<Rightarrow> JsError + (PaymentTable \<times> PaymentRow)" where
  "createRequest now tbl data =
     (case tbl (c_paymentId data) of
        Some _ \<Rightarrow> Inl UniqueConstraint
      | None \<Rightarrow>
          let row = \<lparr>p_paymentId = c_paymentId data, p_briefId = c_briefId data,
                     p_brandId = c_brandId data, p_creatorId = c_creatorId data,
                     p_amount = c_amount data, p_currency = c_currency data,
                     p_network = c_network data, p_paymentUrl = c_paymentUrl data,
                     p_expiresAt = c_expiresAt data, p_memo = c_memo data,
                     p_status = PENDING, p_createdAt = now, p_completedAt = None,
                     p_transactionHash = None, p_blockNumber = None, p_gasUsed = None\<rparr>
          in Inr (tbl(c_paymentId data \<mapsto> row), row))"

text \<open>
  Prisma leaves a column alone when its value in \<open>data\<close> is \<open>undefined\<close>: that is
  \<open>completedAt\<close> for every status but COMPLETED, and each field of
  \<open>transactionData\<close> that is absent.
\<close>

definition set_if_defined :: "'a option \<Rightarrow> 'a option \<Rightarrow> 'a option" where
  "set_if_defined new old = (case new of None \<Rightarrow> old | Some v \<Rightarrow> Some v)"

text \<open>
  \<open>updateStatus\<close> returns what \<open>prisma.payment.update\<close> returns: the updated row
  (the \<open>brief\<close> and \<open>brand\<close> relations it includes are left out; the handlers read
  columns of the payment only). The result is an \<open>option\<close> because the caller tests it
  for null; the update itself never yields null, it throws when the row does not exist.
\<close>

definition updateStatus ::
  "nat \<Rightarrow> PaymentTable \<Rightarrow> string \<Rightarrow> PaymentStatus \<Rightarrow> TransactionData option
     \<Rightarrow> JsError + (PaymentTable \<times> PaymentRow option)" where
  "updateStatus now tbl pid status transactionData =
     (case tbl pid of
        None \<Rightarrow> Inl RecordNotFound
      | Some row \<Rightarrow>
          let row1 = row\<lparr>p_status := status,
                         p_completedAt := (if status = COMPLETED then Some now
                                           else p_completedAt row)\<rparr>;
              row2 = (case transactionData of
                        None \<Rightarrow> row1
                      | Some td \<Rightarrow>
                          row1\<lparr>p_transactionHash :=
                                  set_if_defined (t_transactionHash td) (p_transactionHash row1),
                                p_blockNumber :=
                                  set_if_defined (t_blockNumber td) (p_blockNumber row1),
                                p_gasUsed :=
                                  set_if_defined (t_gasUsed td) (p_gasUsed row1)\<rparr>)
          in Inr (tbl(pid \<mapsto> row2), Some row2))"

definition getByPaymentId :: "PaymentTable \<Rightarrow> string \<Rightarrow> PaymentRow option" where
  "getByPaymentId tbl pid = tbl pid"

text \<open>A sequence of status updates of one payment, stopping at the first that throws.\<close>

fun update_all ::
  "nat \<Rightarrow> PaymentTable \<Rightarrow> string \<Rightarrow> (PaymentStatus \<times> TransactionData option) list
     \<Rightarrow> JsError + PaymentTable" where
  "update_all now tbl pid [] = Inr tbl"
| "update_all now tbl pid (u # us) =
     (case updateStatus now tbl pid (fst u) (snd u) of
        Inl e \<Rightarrow> Inl e
      | Inr r \<Rightarrow> update_all now (fst r) pid us)"

section \<open>The webhook receiver (app/api/payments/webhook/route.ts)\<close>

text \<open>
  The environment of a handler: the configured secret, the clock, and the library
  functions the claims do not look into: HMAC-SHA256 (from key and message to the
  32-byte digest), \<open>JSON.parse\<close> followed by the cast to \<open>X402WebhookPayload\<close>
  (\<open>None\<close> when the body does not parse), and the date arithmetic
  \<open>d.setHours(d.getHours() + 24)\<close> of the server's time zone, which takes a time to
  the time 24 hours later, or 23 or 25 hours later across a daylight-saving change.
\<close>

record X402WebhookPayload =
  w_paymentId :: string
  w_status :: "PaymentStatus option"
  w_transactionHash :: "string option"
  w_blockNumber :: "nat option"
  w_gasUsed :: "nat option"
  w_amount :: string
  w_currency :: string
  w_network :: string
  w_timestamp :: string
  w_merchantId :: string

record Env =
  X402_WEBHOOK_SECRET :: "string option"
  now :: nat
  hmac_sha256 :: "string \<Rightarrow> string \<Rightarrow> 256 word"
  JSON_parse :: "string \<Rightarrow> X402WebhookPayload option"
  hours_plus_24 :: "nat \<Rightarrow> nat"

text \<open>
  The request: the raw body and the value of the header \<open>x-x402-signature\<close>, as the
  bytes \<open>Buffer.from\<close> makes of it (\<open>None\<close> when the header is absent).
\<close>

record WebhookRequest =
  rawBody :: string
  x402_signature :: "string option"

text \<open>
  The store the handlers act on: the payment table and the log of the requests sent
  to \<open>/api/briefs/generate\<close>, each with its \<open>briefId\<close> and \<open>brandId\<close>, oldest first.
  A request is logged when it is sent: whether the generation succeeds changes neither
  the table nor the response. A response is its HTTP status and the fields of its body
  that identify it (the error text, or the payment and its status).
\<close>

record World =
  table :: PaymentTable
  generation_calls :: "(string \<times> string) list"

datatype Body =
    ErrorBody string
  | WebhookOk string PaymentStatus
  | StatusBody string PaymentStatus string "string option" "string option" nat
      "nat option" "nat option" "string option"
  | CreatedBody string string string nat PaymentStatus

datatype Response = Response nat Body

definition hex_char :: "nat \<Rightarrow> char" where
  "hex_char n = (if n < 10 then char_of (48 + n) else char_of (87 + n))"

text \<open>\<open>digest('hex')\<close>: the 64 lower-case hexadecimal digits of the digest.\<close>

definition digest_hex :: "256 word \<Rightarrow> string" where
  "digest_hex d = map (\<lambda>i. hex_char (unat (drop_bit (4 * (63 - i)) d) mod 16)) [0..<64]"

definition timingSafeEqual :: "string \<Rightarrow> string \<Rightarrow> JsError + bool" where
  "timingSafeEqual a b = (if length a \<noteq> length b then Inl RangeError else Inr (a = b))"

definition verifyX402Signature :: "Env \<Rightarrow> string \<Rightarrow> string \<Rightarrow> string \<Rightarrow> JsError + bool" where
  "verifyX402Signature env payload signature secret =
     (let expectedSignature = digest_hex (hmac_sha256 env secret payload)
      in timingSafeEqual signature expectedSignature)"

definition falsy :: "string option \<Rightarrow> bool" where
  "falsy v = (case v of None \<Rightarrow> True | Some x \<Rightarrow> x = [])"

definition failed_500 :: Response where
  "failed_500 = Response 500 (ErrorBody ''Webhook processing failed'')"

definition POST_webhook :: "Env \<Rightarrow> WebhookRequest \<Rightarrow> World \<Rightarrow> Response \<times> World" where
  "POST_webhook env request wld =
     (if falsy (x402_signature request) \<or> falsy (X402_WEBHOOK_SECRET env)
      then (Response 400 (ErrorBody ''Invalid webhook configuration''), wld)
      else
        (case verifyX402Signature env (rawBody request) (the (x402_signature request))
                (the (X402_WEBHOOK_SECRET env)) of
           Inl _ \<Rightarrow> (failed_500, wld)
         | Inr False \<Rightarrow> (Response 401 (ErrorBody ''Invalid signature''), wld)
         | Inr True \<Rightarrow>
             (case JSON_parse env (rawBody request) of
                None \<Rightarrow> (failed_500, wld)
              | Some payload \<Rightarrow>
                  (if w_paymentId payload = [] \<or> w_status payload = None
                   then (Response 400 (ErrorBody ''Invalid webhook payload''), wld)
                   else
                     (case updateStatus (now env) (table wld) (w_paymentId payload)
                             (the (w_status payload))
                             (Some \<lparr>t_transactionHash = w_transactionHash payload,
                                    t_blockNumber = w_blockNumber payload,
                                    t_gasUsed = w_gasUsed payload\<rparr>) of
                        Inl _ \<Rightarrow> (failed_500, wld)
                      | Inr (tbl, None) \<Rightarrow>
                          (Response 404 (ErrorBody ''Payment not found''),
                           wld\<lparr>table := tbl\<rparr>)
                      | Inr (tbl, Some updatedPayment) \<Rightarrow>
                          (let wld1 = wld\<lparr>table := tbl\<rparr>;
                               wld2 =
                                 (if w_status payload = Some COMPLETED
                                       \<and> \<not> falsy (p_briefId updatedPayment)
                                  then wld1\<lparr>generation_calls := generation_calls wld1 @
                                          [(the (p_briefId updatedPayment),
                                            p_brandId updatedPayment)]\<rparr>
                                  else wld1)
                           in (Response 200
                                 (WebhookOk (w_paymentId payload) (the (w_status payload))),
                               wld2)))))))"

section \<open>The payment request route (app/api/payments/request/route.ts)\<close>

datatype PromptType = basic_prompt | premium_prompt | enterprise_prompt

fun PAYMENT_AMOUNTS :: "PromptType \<Rightarrow> string" where
  "PAYMENT_AMOUNTS basic_prompt = ''5000000000000000''"
| "PAYMENT_AMOUNTS premium_prompt = ''10000000000000000''"
| "PAYMENT_AMOUNTS enterprise_prompt = ''25000000000000000''"

record PaymentRequestBody =
  b_briefId :: "string option"
  b_brandId :: string
  b_promptType :: "PromptType option"
  b_memo :: "string option"
  b_callbackUrl :: "string option"

fun prompt_name :: "PromptType \<Rightarrow> string" where
  "prompt_name basic_prompt = ''basic_prompt''"
| "prompt_name premium_prompt = ''premium_prompt''"
| "prompt_name enterprise_prompt = ''enterprise_prompt''"

text \<open>
  The creating handler; \<open>uuid\<close> is what \<open>uuidv4()\<close> returns on this call, \<open>url\<close> the
  configured payment URL. The expiry is the time of the request with 24 added to its
  hours. A body is taken as typed (\<open>PaymentRequestBody\<close>), a missing field being
  \<open>None\<close> or the empty string.
\<close>

definition POST_request ::
  "Env \<Rightarrow> string \<Rightarrow> string \<Rightarrow> PaymentRequestBody \<Rightarrow> World \<Rightarrow> Response \<times> World" where
  "POST_request env uuid url body wld =
     (if b_brandId body = [] then (Response 400 (ErrorBody ''Brand ID is required''), wld)
      else
        (case b_promptType body of
           None \<Rightarrow>
             (Response 400 (ErrorBody
                (''Valid prompt type is required '' @
                 ''(basic_prompt, premium_prompt, enterprise_prompt)'')), wld)
         | Some promptType \<Rightarrow>
             (let payment_id = uuid;
                  amount_wei = PAYMENT_AMOUNTS promptType;
                  expiresAt = hours_plus_24 env (now env);
                  memo = (if falsy (b_memo body)
                          then (''Veo prompt generation - '' @ prompt_name promptType)
                          else the (b_memo body));
                  paymentUrl = (url @ (''/'' @ payment_id))
              in (case createRequest (now env) (table wld)
                         \<lparr>c_paymentId = payment_id, c_briefId = b_briefId body,
                          c_brandId = b_brandId body, c_creatorId = None,
                          c_amount = amount_wei, c_currency = Some ''ETH'',
                          c_network = Some ''scroll-sepolia'',
                          c_paymentUrl = Some paymentUrl, c_expiresAt = Some expiresAt,
                          c_memo = Some memo\<rparr> of
                    Inl _ \<Rightarrow>
                      (Response 500 (ErrorBody ''Failed to create payment request''), wld)
                  | Inr r \<Rightarrow>
                      (Response 201
                         (CreatedBody payment_id paymentUrl amount_wei expiresAt PENDING),
                       wld\<lparr>table := fst r\<rparr>)))))"

text \<open>
  The status handler. It takes the environment like every handler, and reads neither
  the clock nor anything but the table. The \<open>brief\<close> field of its response comes from
  a relation and is left out.
\<close>

definition GET_request :: "Env \<Rightarrow> string option \<Rightarrow> World \<Rightarrow> Response" where
  "GET_request env payment_id wld =
     (if falsy payment_id then Response 400 (ErrorBody ''Payment ID is required'')
      else case getByPaymentId (table wld) (the payment_id) of
        None \<Rightarrow> Response 404 (ErrorBody ''Payment not found'')
      | Some payment \<Rightarrow>
          Response 200 (StatusBody (p_paymentId payment) (p_status payment)
            (p_amount payment) (p_currency payment) (p_network payment)
            (p_createdAt payment) (p_expiresAt payment) (p_completedAt payment)
            (p_transactionHash payment)))"

text \<open>What a response says the status is, when it says so.\<close>

fun reported_status :: "Response \<Rightarrow> PaymentStatus option" where
  "reported_status (Response code (WebhookOk pid st)) = Some st"
| "reported_status (Response code (StatusBody pid st a c n cr ex co th)) = Some st"
| "reported_status (Response code (CreatedBody pid u a ex st)) = Some st"
| "reported_status (Response code (ErrorBody e)) = None"

fun status_code :: "Response \<Rightarrow> nat" where
  "status_code (Response code b) = code"


section \<open>Example inputs\<close>

text \<open>
  A deployment by account 1 with treasury 2; a BASIC payment of the exact price by
  account 3 at time 1000 and a second one under the same id by account 4. The
  contract forwards every payment, so a refund can only be paid from ether its address
  holds for another reason: \<open>funded\<close> is the deployed contract holding 0.005 ETH.
\<close>

definition deployer_msg :: Msg where
  "deployer_msg =
     \<lparr>msg_sender = 1, msg_value = 0, block_timestamp = 500, callee_accepts = (\<lambda>_. True)\<rparr>"

definition deployed :: VeoPayment where
  "deployed = projr (constructor deployer_msg 2)"

definition funded :: VeoPayment where
  "funded = deployed\<lparr>balance := 5000000000000000\<rparr>"

definition alice_pays :: Msg where
  "alice_pays =
     \<lparr>msg_sender = 3, msg_value = 5000000000000000, block_timestamp = 1000,
      callee_accepts = (\<lambda>_. True)\<rparr>"

definition bob_pays :: Msg where
  "bob_pays =
     \<lparr>msg_sender = 4, msg_value = 5000000000000000, block_timestamp = 2000,
      callee_accepts = (\<lambda>_. True)\<rparr>"

definition paid :: VeoPayment where
  "paid = apply_tx (alice_pays, ProcessPayment ''pay-1'' BASIC) deployed"

definition funded_paid :: VeoPayment where
  "funded_paid = apply_tx (alice_pays, ProcessPayment ''pay-1'' BASIC) funded"

definition two_payments :: "(Msg \<times> Call) list" where
  "two_payments =
     [(alice_pays, ProcessPayment ''pay-1'' BASIC), (bob_pays, ProcessPayment ''pay-1'' BASIC)]"

text \<open>Account 3 asks for the refund one hour after paying, and once more a day later.\<close>

definition alice_refunds :: Msg where
  "alice_refunds =
     \<lparr>msg_sender = 3, msg_value = 0, block_timestamp = 4600, callee_accepts = (\<lambda>_. True)\<rparr>"

definition alice_late :: Msg where
  "alice_late =
     \<lparr>msg_sender = 3, msg_value = 0, block_timestamp = 91000, callee_accepts = (\<lambda>_. True)\<rparr>"

definition owner_msg :: Msg where
  "owner_msg =
     \<lparr>msg_sender = 1, msg_value = 0, block_timestamp = 2000, callee_accepts = (\<lambda>_. True)\<rparr>"

text \<open>
  A request carries a valid signature when header and secret are present and the
  header is the hexadecimal HMAC of the raw body under the secret.
\<close>

definition valid_signature :: "Env \<Rightarrow> WebhookRequest \<Rightarrow> bool" where
  "valid_signature env request =
     (\<not> falsy (x402_signature request) \<and> \<not> falsy (X402_WEBHOOK_SECRET env) \<and>
      the (x402_signature request) =
        digest_hex (hmac_sha256 env (the (X402_WEBHOOK_SECRET env)) (rawBody request)))"

text \<open>
  Off-chain examples. The two library functions of the environment are stand-ins (a
  MAC that only looks at lengths, a parser that knows two bodies); the theorems that
  use them hold for every choice, the examples need one. The server of the examples
  has no daylight saving. The payment \<open>pay-1\<close> was
  requested at time 0 for the brief \<open>brief-1\<close> and expires at 100000; the webhooks
  arrive at 200000. No payment \<open>pay-9\<close> exists.
\<close>

definition example_mac :: "string \<Rightarrow> string \<Rightarrow> 256 word" where
  "example_mac key msg = of_nat (length key + 31 * length msg)"

definition example_payload :: X402WebhookPayload where
  "example_payload =
     \<lparr>w_paymentId = ''pay-1'', w_status = Some COMPLETED,
      w_transactionHash = Some ''0xabc'', w_blockNumber = Some 77, w_gasUsed = Some 21000,
      w_amount = ''5000000000000000'', w_currency = ''ETH'', w_network = ''scroll-sepolia'',
      w_timestamp = ''t'', w_merchantId = ''m''\<rparr>"

definition example_parse :: "string \<Rightarrow> X402WebhookPayload option" where
  "example_parse body =
     (if body = ''completed pay-1'' then Some example_payload
      else if body = ''completed pay-9'' then Some (example_payload\<lparr>w_paymentId := ''pay-9''\<rparr>)
      else None)"

definition example_env :: Env where
  "example_env =
     \<lparr>X402_WEBHOOK_SECRET = Some ''secret'', now = 200000, hmac_sha256 = example_mac,
      JSON_parse = example_parse, hours_plus_24 = (\<lambda>t. t + 86400000)\<rparr>"

definition example_row :: PaymentRow where
  "example_row =
     \<lparr>p_paymentId = ''pay-1'', p_briefId = Some ''brief-1'', p_brandId = ''brand-1'',
      p_creatorId = None, p_amount = ''5000000000000000'', p_currency = Some ''ETH'',
      p_network = Some ''scroll-sepolia'', p_paymentUrl = None, p_expiresAt = Some 100000,
      p_memo = None, p_status = PENDING, p_createdAt = 0, p_completedAt = None,
      p_transactionHash = None, p_blockNumber = None, p_gasUsed = None\<rparr>"

definition example_world :: World where
  "example_world = \<lparr>table = [''pay-1'' \<mapsto> example_row], generation_calls = []\<rparr>"

definition signed :: "string \<Rightarrow> WebhookRequest" where
  "signed body =
     \<lparr>rawBody = body, x402_signature = Some (digest_hex (example_mac ''secret'' body))\<rparr>"

definition example_body :: PaymentRequestBody where
  "example_body =
     \<lparr>b_briefId = Some ''brief-2'', b_brandId = ''brand-1'',
      b_promptType = Some basic_prompt, b_memo = None, b_callbackUrl = None\<rparr>"

definition empty_world :: World where
  "empty_world = \<lparr>table = Map.empty, generation_calls = []\<rparr>"

section \<open>The ledger of the contract\<close>

text \<open>The part of a payment record that is written once: everything but \<open>completed\<close>.\<close>

definition same_record :: "Payment \<Rightarrow> Payment \<Rightarrow> bool" where
  "same_record a b =
     (payer a = payer b \<and> amount a = amount b \<and> tier a = tier b \<and>
      paymentId a = paymentId b \<and> timestamp a = timestamp b)"

text \<open>
  What a refund request does as far as payments are concerned: the revert, or the
  ledger and the balance it leaves.
\<close>

definition refund_outcome :: "Revert + VeoPayment \<Rightarrow> Revert + (string \<Rightarrow> Payment) \<times> nat" where
  "refund_outcome r = (case r of Inl e \<Rightarrow> Inl e | Inr s \<Rightarrow> Inr (payments s, balance s))"

lemma deployed_eq:
  "deployed =
     \<lparr>payments = (\<lambda>_. zero_Payment),
      tierPrices = ((\<lambda>_. 0)(BASIC := 5000000000000000, PREMIUM := 10000000000000000,
                             ENTERPRISE := 25000000000000000)),
      userPaymentCount = (\<lambda>_. 0), paymentIds = [], totalPaymentsReceived = 0,
      totalAmountCollected = 0, treasuryWallet = 2, refundWindow = 86400, owner = 1,
      paused = False, entered = False, balance = 0, events = []\<rparr>"
  by (simp add: deployed_def constructor_def deployer_msg_def)

lemma first_payment:
  "processPayment alice_pays (deployed\<lparr>balance := b\<rparr>) ''pay-1'' BASIC =
     Inr (deployed\<lparr>balance := b,
            payments := (payments deployed)(''pay-1'' :=
              \<lparr>payer = 3, amount = 5000000000000000, tier = BASIC, paymentId = ''pay-1'',
               completed = True, timestamp = 1000\<rparr>),
            paymentIds := [''pay-1''],
            userPaymentCount := (userPaymentCount deployed)(3 := 1),
            totalPaymentsReceived := 1,
            totalAmountCollected := 5000000000000000,
            events := [PaymentReceived 3 ''pay-1'' 5000000000000000 BASIC 1000]\<rparr>)"
  by (simp add: processPayment_def deployed_eq alice_pays_def Let_def zero_Payment_def
        checked_add_def call_value_def)

lemma paid_eq:
  "paid = deployed\<lparr>balance := 0,
            payments := (payments deployed)(''pay-1'' :=
              \<lparr>payer = 3, amount = 5000000000000000, tier = BASIC, paymentId = ''pay-1'',
               completed = True, timestamp = 1000\<rparr>),
            paymentIds := [''pay-1''],
            userPaymentCount := (userPaymentCount deployed)(3 := 1),
            totalPaymentsReceived := 1,
            totalAmountCollected := 5000000000000000,
            events := [PaymentReceived 3 ''pay-1'' 5000000000000000 BASIC 1000]\<rparr>"
proof -
  have "deployed = deployed\<lparr>balance := 0\<rparr>" by (simp add: deployed_eq)
  then have "processPayment alice_pays deployed ''pay-1'' BASIC =
      processPayment alice_pays (deployed\<lparr>balance := 0\<rparr>) ''pay-1'' BASIC" by simp
  then show ?thesis by (simp add: paid_def apply_tx_def first_payment)
qed

lemma funded_paid_eq:
  "funded_paid = deployed\<lparr>balance := 5000000000000000,
            payments := (payments deployed)(''pay-1'' :=
              \<lparr>payer = 3, amount = 5000000000000000, tier = BASIC, paymentId = ''pay-1'',
               completed = True, timestamp = 1000\<rparr>),
            paymentIds := [''pay-1''],
            userPaymentCount := (userPaymentCount deployed)(3 := 1),
            totalPaymentsReceived := 1,
            totalAmountCollected := 5000000000000000,
            events := [PaymentReceived 3 ''pay-1'' 5000000000000000 BASIC 1000]\<rparr>"
  by (simp add: funded_paid_def funded_def apply_tx_def first_payment)

lemma first_payment_succeeds: "succeeds (processPayment alice_pays deployed ''pay-1'' BASIC)"
proof -
  have "deployed = deployed\<lparr>balance := 0\<rparr>" by (simp add: deployed_eq)
  then have "processPayment alice_pays deployed ''pay-1'' BASIC =
      processPayment alice_pays (deployed\<lparr>balance := 0\<rparr>) ''pay-1'' BASIC" by simp
  then show ?thesis by (simp add: first_payment succeeds_def)
qed

lemma second_payment_reverts:
  "processPayment bob_pays paid ''pay-1'' BASIC = Inl (Revert ''Payment ID already exists'')"
  by (simp add: processPayment_def paid_eq deployed_eq bob_pays_def Let_def)

lemma refund_in_window_succeeds: "succeeds (requestRefund alice_refunds funded_paid ''pay-1'')"
  by (simp add: succeeds_def requestRefund_def funded_paid_eq deployed_eq alice_refunds_def
        Let_def checked_add_def call_value_def)

lemma run_append: "run (xs @ ys) s = run ys (run xs s)"
  by (induction xs arbitrary: s) auto

lemma apply_tx_failed: "\<not> succeeds (exec m c s) \<Longrightarrow> apply_tx (m, c) s = s"
  by (auto simp: apply_tx_def succeeds_def split: sum.splits)

subsection \<open>A recorded payment stays recorded\<close>

lemma processPayment_created:
  assumes "processPayment m s pid t = Inr s'"
  shows "payer (payments s' pid) = msg_sender m \<and>
         timestamp (payments s' pid) = block_timestamp m \<and>
         amount (payments s' pid) = msg_value m \<and> tier (payments s' pid) = t"
  using assms
  by (auto simp: processPayment_def Let_def call_value_def split: if_splits option.splits)

lemma processPayment_record_kept:
  assumes "processPayment m s pid' t = Inr s'" and "payer (payments s pid) \<noteq> 0"
  shows "payments s' pid = payments s pid"
  using assms
  by (auto simp: processPayment_def Let_def call_value_def split: if_splits option.splits)

lemma requestRefund_record_kept:
  assumes "requestRefund m s pid' = Inr s'"
  shows "same_record (payments s' pid) (payments s pid)"
  using assms
  by (auto simp: requestRefund_def Let_def call_value_def same_record_def
        split: if_splits option.splits)

lemma admin_payments:
  "updateTierPrice m s t p = Inr s' \<Longrightarrow> payments s' = payments s"
  "updateTreasuryWallet m s a = Inr s' \<Longrightarrow> payments s' = payments s"
  "updateRefundWindow m s w = Inr s' \<Longrightarrow> payments s' = payments s"
  "pause m s = Inr s' \<Longrightarrow> payments s' = payments s"
  "unpause m s = Inr s' \<Longrightarrow> payments s' = payments s"
  "emergencyWithdraw m s = Inr s' \<Longrightarrow> payments s' = payments s"
  "transferOwnership m s a = Inr s' \<Longrightarrow> payments s' = payments s"
  "renounceOwnership m s = Inr s' \<Longrightarrow> payments s' = payments s"
  by (auto simp: updateTierPrice_def updateTreasuryWallet_def updateRefundWindow_def pause_def
        unpause_def emergencyWithdraw_def transferOwnership_def renounceOwnership_def
        split: option.splits if_splits)

lemma exec_record_kept:
  assumes "exec m c s = Inr s'" and "payer (payments s pid) \<noteq> 0"
  shows "same_record (payments s' pid) (payments s pid)"
proof (cases c)
  case (ProcessPayment pid' t)
  then have "payments s' pid = payments s pid"
    using assms by (auto dest: processPayment_record_kept)
  then show ?thesis by (simp add: same_record_def)
next
  case (RequestRefund pid')
  then show ?thesis using assms by (auto dest: requestRefund_record_kept)
qed (use assms in \<open>auto simp: admin_payments same_record_def\<close>)

lemma apply_tx_record_kept:
  assumes "payer (payments s pid) \<noteq> 0"
  shows "same_record (payments (apply_tx tx s) pid) (payments s pid)"
proof (cases "exec (fst tx) (snd tx) s")
  case (Inl e)
  then show ?thesis by (simp add: apply_tx_def same_record_def)
next
  case (Inr s')
  then show ?thesis using exec_record_kept [OF Inr assms] by (simp add: apply_tx_def)
qed

lemma run_record_kept:
  "payer (payments s pid) \<noteq> 0 \<Longrightarrow> same_record (payments (run txs s) pid) (payments s pid)"
proof (induction txs arbitrary: s)
  case Nil
  then show ?case by (simp add: same_record_def)
next
  case (Cons tx txs)
  have a: "same_record (payments (apply_tx tx s) pid) (payments s pid)"
    using Cons.prems by (rule apply_tx_record_kept)
  then have "payer (payments (apply_tx tx s) pid) \<noteq> 0"
    using Cons.prems by (simp add: same_record_def)
  then have "same_record (payments (run txs (apply_tx tx s)) pid) (payments (apply_tx tx s) pid)"
    by (rule Cons.IH)
  then show ?case using a by (simp add: same_record_def)
qed

lemma run_payer_kept:
  "payer (payments s pid) \<noteq> 0 \<Longrightarrow> payer (payments (run txs s) pid) \<noteq> 0"
  using run_record_kept [of s pid txs] by (simp add: same_record_def)

lemma processPayment_used_reverts:
  "payer (payments s pid) \<noteq> 0 \<Longrightarrow> \<exists>e. processPayment m s pid t = Inl e"
  by (auto simp: processPayment_def Let_def)

lemma paid_count_used:
  "payer (payments s pid) \<noteq> 0 \<Longrightarrow> paid_count pid txs s = 0"
proof (induction txs arbitrary: s)
  case Nil
  then show ?case by simp
next
  case (Cons tx txs)
  have "payer (payments (apply_tx tx s) pid) \<noteq> 0"
    using apply_tx_record_kept [OF Cons.prems, of tx] Cons.prems by (simp add: same_record_def)
  then have "paid_count pid txs (apply_tx tx s) = 0" by (rule Cons.IH)
  moreover have "\<not> succeeds (processPayment m s pid t)" for m t
    using processPayment_used_reverts [OF Cons.prems, of m t] by (auto simp: succeeds_def)
  ultimately show ?case by (auto split: Call.splits)
qed

lemma paid_count_le_1:
  "\<forall>tx\<in>set txs. msg_sender (fst tx) \<noteq> 0 \<Longrightarrow> paid_count pid txs s \<le> 1"
proof (induction txs arbitrary: s)
  case Nil
  then show ?case by simp
next
  case (Cons tx txs)
  obtain m c where tx: "tx = (m, c)" by (cases tx)
  have m: "msg_sender m \<noteq> 0" using Cons.prems tx by simp
  have IH: "paid_count pid txs (apply_tx tx s) \<le> 1" using Cons by simp
  show ?case
  proof (cases "\<exists>t. c = ProcessPayment pid t \<and> succeeds (exec m c s)")
    case True
    then obtain t s' where c: "c = ProcessPayment pid t"
      and ok: "processPayment m s pid t = Inr s'"
      by (auto simp: succeeds_def split: sum.splits)
    have "payer (payments s' pid) \<noteq> 0" using processPayment_created [OF ok] m by simp
    moreover have "apply_tx tx s = s'" using ok c tx by (simp add: apply_tx_def)
    ultimately have "paid_count pid txs (apply_tx tx s) = 0" by (simp add: paid_count_used)
    then show ?thesis using tx c by simp
  next
    case False
    then show ?thesis using IH tx by (auto split: Call.splits)
  qed
qed

lemma requestRefund_success:
  assumes "succeeds (requestRefund m s pid)"
  shows "unat (block_timestamp m) \<le> unat (timestamp (payments s pid)) + unat (refundWindow s) \<and>
         msg_sender m = payer (payments s pid)"
  using assms
  by (auto simp: requestRefund_def succeeds_def Let_def checked_add_def word_le_nat_alt
        unat_word_ariths split: if_splits option.splits)

lemma requestRefund_tierPrices:
  "refund_outcome (requestRefund m (s\<lparr>tierPrices := tp, events := ev\<rparr>) pid) =
   refund_outcome (requestRefund m s pid)"
  by (auto simp: requestRefund_def refund_outcome_def Let_def call_value_def
        split: option.splits)

lemma requestRefund_treasury:
  "refund_outcome (requestRefund m (s\<lparr>treasuryWallet := a\<rparr>) pid) =
   refund_outcome (requestRefund m s pid)"
  by (auto simp: requestRefund_def refund_outcome_def Let_def call_value_def
        split: option.splits)

section \<open>Claims about the contract\<close>

text \<open>
  C4. For every paymentId, at most one \<open>processPayment\<close> call with that id ever
  succeeds: along every trace of transactions from every state the number of
  successful \<open>processPayment\<close> calls for the id is at most one, and whenever one has
  succeeded, any later \<open>processPayment\<close> call with the same id reverts and leaves the
  contract state as it was. The senders are real accounts, that is, not the zero
  address.
\<close>

theorem processPayment_at_most_once:
  assumes "\<forall>tx\<in>set txs. msg_sender (fst tx) \<noteq> 0"
  shows "paid_count pid txs s \<le> 1 \<and>
    (\<forall>pre m1 t1 mid m2 t2 post.
       txs = pre @ (m1, ProcessPayment pid t1) # mid @ (m2, ProcessPayment pid t2) # post \<and>
       succeeds (processPayment m1 (run pre s) pid t1) \<longrightarrow>
       \<not> succeeds (processPayment m2 (run (pre @ (m1, ProcessPayment pid t1) # mid) s) pid t2) \<and>
       run (pre @ (m1, ProcessPayment pid t1) # mid @ [(m2, ProcessPayment pid t2)]) s =
       run (pre @ (m1, ProcessPayment pid t1) # mid) s)"
proof (intro conjI allI impI)
  show "paid_count pid txs s \<le> 1" using assms by (rule paid_count_le_1)
next
  fix pre m1 t1 mid m2 t2 post
  assume h: "txs = pre @ (m1, ProcessPayment pid t1) # mid @ (m2, ProcessPayment pid t2) # post \<and>
       succeeds (processPayment m1 (run pre s) pid t1)"
  then obtain s1 where ok: "processPayment m1 (run pre s) pid t1 = Inr s1"
    by (auto simp: succeeds_def split: sum.splits)
  have "msg_sender m1 \<noteq> 0" using assms h by auto
  then have "payer (payments s1 pid) \<noteq> 0" using processPayment_created [OF ok] by simp
  then have used: "payer (payments (run mid s1) pid) \<noteq> 0" by (rule run_payer_kept)
  have st: "run (pre @ (m1, ProcessPayment pid t1) # mid) s = run mid s1"
    using ok by (simp add: run_append apply_tx_def)
  obtain e where rev: "processPayment m2 (run mid s1) pid t2 = Inl e"
    using processPayment_used_reverts [OF used] by blast
  show "\<not> succeeds (processPayment m2 (run (pre @ (m1, ProcessPayment pid t1) # mid) s) pid t2)"
    using rev st by (simp add: succeeds_def)
  have "run (pre @ (m1, ProcessPayment pid t1) # mid @ [(m2, ProcessPayment pid t2)]) s
        = apply_tx (m2, ProcessPayment pid t2) (run mid s1)"
    using ok by (simp add: run_append apply_tx_def)
  also have "\<dots> = run mid s1" using rev by (simp add: apply_tx_def)
  finally show "run (pre @ (m1, ProcessPayment pid t1) # mid @ [(m2, ProcessPayment pid t2)]) s =
       run (pre @ (m1, ProcessPayment pid t1) # mid) s" using st by simp
qed

theorem processPayment_at_most_once_witness:
  "msg_sender alice_pays \<noteq> 0 \<and> msg_sender bob_pays \<noteq> 0 \<and>
   succeeds (processPayment alice_pays deployed ''pay-1'' BASIC) \<and>
   paid_count ''pay-1'' two_payments deployed \<le> 1 \<and>
   \<not> succeeds (processPayment bob_pays
        (run [(alice_pays, ProcessPayment ''pay-1'' BASIC)] deployed) ''pay-1'' BASIC) \<and>
   run two_payments deployed = run [(alice_pays, ProcessPayment ''pay-1'' BASIC)] deployed"
proof -
  have senders: "\<forall>tx\<in>set two_payments. msg_sender (fst tx) \<noteq> 0"
    by (simp add: two_payments_def alice_pays_def bob_pays_def)
  have first: "succeeds (processPayment alice_pays (run [] deployed) ''pay-1'' BASIC)"
    using first_payment_succeeds by simp
  have split: "two_payments = [] @ (alice_pays, ProcessPayment ''pay-1'' BASIC) # [] @
                 (bob_pays, ProcessPayment ''pay-1'' BASIC) # []"
    by (simp add: two_payments_def)
  from processPayment_at_most_once [OF senders, of "''pay-1''" deployed]
  have cnt: "paid_count ''pay-1'' two_payments deployed \<le> 1"
    and later: "\<And>pre m1 t1 mid m2 t2 post.
       two_payments = pre @ (m1, ProcessPayment ''pay-1'' t1) # mid @
                        (m2, ProcessPayment ''pay-1'' t2) # post \<and>
       succeeds (processPayment m1 (run pre deployed) ''pay-1'' t1) \<Longrightarrow>
       \<not> succeeds (processPayment m2
            (run (pre @ (m1, ProcessPayment ''pay-1'' t1) # mid) deployed) ''pay-1'' t2) \<and>
       run (pre @ (m1, ProcessPayment ''pay-1'' t1) # mid @
              [(m2, ProcessPayment ''pay-1'' t2)]) deployed =
       run (pre @ (m1, ProcessPayment ''pay-1'' t1) # mid) deployed"
    by blast+
  from later [of "[]" alice_pays BASIC "[]" bob_pays BASIC "[]"] split first
  have "\<not> succeeds (processPayment bob_pays
            (run ([] @ (alice_pays, ProcessPayment ''pay-1'' BASIC) # []) deployed)
            ''pay-1'' BASIC) \<and>
       run ([] @ (alice_pays, ProcessPayment ''pay-1'' BASIC) # [] @
              [(bob_pays, ProcessPayment ''pay-1'' BASIC)]) deployed =
       run ([] @ (alice_pays, ProcessPayment ''pay-1'' BASIC) # []) deployed"
    by blast
  moreover have "msg_sender alice_pays \<noteq> 0 \<and> msg_sender bob_pays \<noteq> 0"
    by (simp add: alice_pays_def bob_pays_def)
  ultimately show ?thesis using cnt first_payment_succeeds by (simp add: two_payments_def)
qed

text \<open>When \<open>processPayment\<close> succeeds, guard by guard.\<close>

lemma processPayment_success_conditions:
  "succeeds (processPayment m s pid t) \<longleftrightarrow>
      msg_value m = getTierPrice s t \<and> \<not> entered s \<and> \<not> paused s \<and> pid \<noteq> [] \<and>
      payer (payments s pid) = 0 \<and>
      unat (userPaymentCount s (msg_sender m)) + 1 < 2 ^ 256 \<and>
      unat (totalPaymentsReceived s) + 1 < 2 ^ 256 \<and>
      unat (totalAmountCollected s) + unat (msg_value m) < 2 ^ 256 \<and>
      callee_accepts m (treasuryWallet s)"
  by (auto simp: processPayment_def succeeds_def getTierPrice_def Let_def checked_add_def
        call_value_def split: option.splits)

text \<open>
  C5. For all tiers, a \<open>processPayment\<close> call that meets the other preconditions of the
  operation (the contract is not paused nor re-entered, the paymentId is non-empty and
  unused, the treasury accepts the transfer, and the three counters are not at their
  maximum) succeeds if and only if the attached value exactly equals
  \<open>getTierPrice(tier)\<close> at call time. Any other attached value causes a revert with no
  state change, whether or not those preconditions hold.
\<close>

theorem processPayment_iff_exact_price:
  "(\<not> entered s \<and> \<not> paused s \<and> pid \<noteq> [] \<and> payer (payments s pid) = 0 \<and>
    unat (userPaymentCount s (msg_sender m)) + 1 < 2 ^ 256 \<and>
    unat (totalPaymentsReceived s) + 1 < 2 ^ 256 \<and>
    unat (totalAmountCollected s) + unat (msg_value m) < 2 ^ 256 \<and>
    callee_accepts m (treasuryWallet s) \<longrightarrow>
      (succeeds (processPayment m s pid t) \<longleftrightarrow> msg_value m = getTierPrice s t)) \<and>
   (msg_value m \<noteq> getTierPrice s t \<longrightarrow>
      \<not> succeeds (processPayment m s pid t) \<and>
      apply_tx (m, ProcessPayment pid t) s = s)"
proof -
  have B: "apply_tx (m, ProcessPayment pid t) s = s" if "\<not> succeeds (processPayment m s pid t)"
    using that apply_tx_failed [of m "ProcessPayment pid t" s] by simp
  show ?thesis using processPayment_success_conditions [of m s pid t] B by blast
qed

theorem processPayment_iff_exact_price_witness:
  "\<not> entered deployed \<and> \<not> paused deployed \<and> ''pay-1'' \<noteq> [] \<and>
   payer (payments deployed ''pay-1'') = 0 \<and>
   unat (userPaymentCount deployed (msg_sender alice_pays)) + 1 < 2 ^ 256 \<and>
   unat (totalPaymentsReceived deployed) + 1 < 2 ^ 256 \<and>
   unat (totalAmountCollected deployed) + unat (msg_value alice_pays) < 2 ^ 256 \<and>
   callee_accepts alice_pays (treasuryWallet deployed) \<and>
   msg_value alice_pays = getTierPrice deployed BASIC \<and>
   succeeds (processPayment alice_pays deployed ''pay-1'' BASIC) \<and>
   msg_value alice_pays \<noteq> getTierPrice deployed PREMIUM \<and>
   \<not> succeeds (processPayment alice_pays deployed ''pay-1'' PREMIUM) \<and>
   apply_tx (alice_pays, ProcessPayment ''pay-1'' PREMIUM) deployed = deployed"
proof -
  have ne: "msg_value alice_pays \<noteq> getTierPrice deployed PREMIUM"
    by (simp add: alice_pays_def getTierPrice_def deployed_eq)
  have eq: "msg_value alice_pays = getTierPrice deployed BASIC"
    by (simp add: alice_pays_def getTierPrice_def deployed_eq)
  have rest: "\<not> entered deployed \<and> \<not> paused deployed \<and> ''pay-1'' \<noteq> [] \<and>
      payer (payments deployed ''pay-1'') = 0 \<and>
      unat (userPaymentCount deployed (msg_sender alice_pays)) + 1 < 2 ^ 256 \<and>
      unat (totalPaymentsReceived deployed) + 1 < 2 ^ 256 \<and>
      unat (totalAmountCollected deployed) + unat (msg_value alice_pays) < 2 ^ 256 \<and>
      callee_accepts alice_pays (treasuryWallet deployed)"
    by (simp add: alice_pays_def deployed_eq zero_Payment_def)
  show ?thesis
    using processPayment_iff_exact_price [of deployed "''pay-1''" alice_pays BASIC]
      processPayment_iff_exact_price [of deployed "''pay-1''" alice_pays PREMIUM] ne eq rest
    by blast
qed

text \<open>
  C6. For a payment recorded by \<open>processPayment\<close> (call \<open>m1\<close>), after any
  transactions whatever, \<open>requestRefund\<close> succeeds only when the block time is at most
  the time the payment was created plus the refund window in force, and the caller is
  the payer who made the payment; in every other case it reverts, and the state stays
  as it was.
\<close>

theorem requestRefund_only_in_window_by_payer:
  assumes "processPayment m1 s pid t1 = Inr s1" and "msg_sender m1 \<noteq> 0"
  shows
  "(succeeds (requestRefund m (run txs s1) pid) \<longrightarrow>
      unat (block_timestamp m) \<le> unat (block_timestamp m1) + unat (refundWindow (run txs s1)) \<and>
      msg_sender m = msg_sender m1) \<and>
   (\<not> (unat (block_timestamp m) \<le> unat (block_timestamp m1) + unat (refundWindow (run txs s1)) \<and>
       msg_sender m = msg_sender m1) \<longrightarrow>
      \<not> succeeds (requestRefund m (run txs s1) pid) \<and>
      apply_tx (m, RequestRefund pid) (run txs s1) = run txs s1)"
proof -
  have c: "payer (payments s1 pid) = msg_sender m1"
    "timestamp (payments s1 pid) = block_timestamp m1"
    using processPayment_created [OF assms(1)] by simp_all
  then have "payer (payments s1 pid) \<noteq> 0" using assms(2) by simp
  then have "same_record (payments (run txs s1) pid) (payments s1 pid)"
    by (rule run_record_kept)
  then have k: "payer (payments (run txs s1) pid) = msg_sender m1"
     "timestamp (payments (run txs s1) pid) = block_timestamp m1"
    using c by (simp_all add: same_record_def)
  have A: "unat (block_timestamp m) \<le> unat (block_timestamp m1) + unat (refundWindow (run txs s1)) \<and>
      msg_sender m = msg_sender m1" if "succeeds (requestRefund m (run txs s1) pid)"
    using requestRefund_success [OF that] k by simp
  have B: "apply_tx (m, RequestRefund pid) (run txs s1) = run txs s1"
    if "\<not> succeeds (requestRefund m (run txs s1) pid)"
    using that apply_tx_failed [of m "RequestRefund pid"] by simp
  show ?thesis using A B by blast
qed

theorem requestRefund_only_in_window_by_payer_witness:
  "processPayment alice_pays funded ''pay-1'' BASIC = Inr funded_paid \<and>
   msg_sender alice_pays \<noteq> 0 \<and>
   succeeds (requestRefund alice_refunds (run [] funded_paid) ''pay-1'') \<and>
   unat (block_timestamp alice_refunds)
     \<le> unat (block_timestamp alice_pays) + unat (refundWindow (run [] funded_paid)) \<and>
   msg_sender alice_refunds = msg_sender alice_pays \<and>
   \<not> (unat (block_timestamp alice_late)
        \<le> unat (block_timestamp alice_pays) + unat (refundWindow (run [] funded_paid)) \<and>
      msg_sender alice_late = msg_sender alice_pays) \<and>
   \<not> succeeds (requestRefund alice_late (run [] funded_paid) ''pay-1'') \<and>
   apply_tx (alice_late, RequestRefund ''pay-1'') (run [] funded_paid) = run [] funded_paid"
proof -
  have p: "processPayment alice_pays funded ''pay-1'' BASIC = Inr funded_paid"
    by (simp add: funded_def first_payment funded_paid_eq)
  have n: "msg_sender alice_pays \<noteq> 0" by (simp add: alice_pays_def)
  have ok: "succeeds (requestRefund alice_refunds (run [] funded_paid) ''pay-1'')"
    using refund_in_window_succeeds by simp
  have late: "\<not> (unat (block_timestamp alice_late)
        \<le> unat (block_timestamp alice_pays) + unat (refundWindow (run [] funded_paid)) \<and>
      msg_sender alice_late = msg_sender alice_pays)"
    by (simp add: alice_late_def alice_pays_def funded_paid_eq deployed_eq)
  show ?thesis
    using requestRefund_only_in_window_by_payer [OF p n, of alice_refunds "[]"]
      requestRefund_only_in_window_by_payer [OF p n, of alice_late "[]"] p n ok late
    by blast
qed

text \<open>When \<open>requestRefund\<close> succeeds, guard by guard.\<close>

lemma requestRefund_success_conditions:
  "succeeds (requestRefund m s pid) \<longleftrightarrow>
      msg_value m = 0 \<and> \<not> entered s \<and> payer (payments s pid) = msg_sender m \<and>
      completed (payments s pid) \<and>
      unat (timestamp (payments s pid)) + unat (refundWindow s) < 2 ^ 256 \<and>
      unat (block_timestamp m) \<le> unat (timestamp (payments s pid)) + unat (refundWindow s) \<and>
      unat (amount (payments s pid)) \<le> balance s \<and>
      callee_accepts m (msg_sender m)"
  by (auto simp: requestRefund_def succeeds_def Let_def checked_add_def call_value_def
        word_le_nat_alt unat_word_ariths split: option.splits)

text \<open>
  C8 (as the code has it). A successful \<open>updateTierPrice\<close>, \<open>updateTreasuryWallet\<close> or
  \<open>updateRefundWindow\<close> is in force for the next call: the next \<open>processPayment\<close> for
  the tier succeeds exactly when it attaches the new price (and meets the other guards),
  the next \<open>processPayment\<close> succeeds exactly when the new treasury accepts its transfer
  (and the other guards are met), the next \<open>requestRefund\<close> succeeds exactly when it
  comes within the new window (and meets the other guards). All three leave every stored
  payment record unchanged. The first two also leave what \<open>requestRefund\<close> does for
  every payment unchanged. \<open>updateRefundWindow\<close> does not: the refund of a payment
  recorded before the update is from then on decided by the new window, counted from the
  time the payment was recorded.
\<close>

theorem admin_updates_effect:
  "(updateTierPrice m s t p = Inr s1 \<longrightarrow>
      getTierPrice s1 t = p \<and>
      (succeeds (processPayment mp s1 pid' t) \<longleftrightarrow>
         msg_value mp = p \<and> \<not> entered s \<and> \<not> paused s \<and> pid' \<noteq> [] \<and>
         payer (payments s pid') = 0 \<and>
         unat (userPaymentCount s (msg_sender mp)) + 1 < 2 ^ 256 \<and>
         unat (totalPaymentsReceived s) + 1 < 2 ^ 256 \<and>
         unat (totalAmountCollected s) + unat (msg_value mp) < 2 ^ 256 \<and>
         callee_accepts mp (treasuryWallet s)) \<and>
      payments s1 = payments s \<and>
      refund_outcome (requestRefund mr s1 pid) = refund_outcome (requestRefund mr s pid)) \<and>
   (updateTreasuryWallet m s a = Inr s2 \<longrightarrow>
      treasuryWallet s2 = a \<and>
      (succeeds (processPayment mp s2 pid' t') \<longleftrightarrow>
         msg_value mp = getTierPrice s t' \<and> \<not> entered s \<and> \<not> paused s \<and> pid' \<noteq> [] \<and>
         payer (payments s pid') = 0 \<and>
         unat (userPaymentCount s (msg_sender mp)) + 1 < 2 ^ 256 \<and>
         unat (totalPaymentsReceived s) + 1 < 2 ^ 256 \<and>
         unat (totalAmountCollected s) + unat (msg_value mp) < 2 ^ 256 \<and>
         callee_accepts mp a) \<and>
      payments s2 = payments s \<and>
      refund_outcome (requestRefund mr s2 pid) = refund_outcome (requestRefund mr s pid)) \<and>
   (updateRefundWindow m s w = Inr s3 \<longrightarrow>
      refundWindow s3 = w \<and> payments s3 = payments s \<and>
      (succeeds (requestRefund mr s3 pid) \<longleftrightarrow>
         msg_value mr = 0 \<and> \<not> entered s \<and> payer (payments s pid) = msg_sender mr \<and>
         completed (payments s pid) \<and>
         unat (timestamp (payments s pid)) + unat w < 2 ^ 256 \<and>
         unat (block_timestamp mr) \<le> unat (timestamp (payments s pid)) + unat w \<and>
         unat (amount (payments s pid)) \<le> balance s \<and>
         callee_accepts mr (msg_sender mr)))"
proof (intro conjI impI)
  assume h: "updateTierPrice m s t p = Inr s1"
  then have e: "s1 = s\<lparr>tierPrices := (tierPrices s)(t := p),
                        events := events s @ [TierPriceUpdated t p]\<rparr>"
    by (auto simp: updateTierPrice_def split: option.splits if_splits)
  show "getTierPrice s1 t = p" using e by (simp add: getTierPrice_def)
  show "payments s1 = payments s" using e by simp
  show "refund_outcome (requestRefund mr s1 pid) = refund_outcome (requestRefund mr s pid)"
    unfolding e by (rule requestRefund_tierPrices)
  show "succeeds (processPayment mp s1 pid' t) \<longleftrightarrow>
         msg_value mp = p \<and> \<not> entered s \<and> \<not> paused s \<and> pid' \<noteq> [] \<and>
         payer (payments s pid') = 0 \<and>
         unat (userPaymentCount s (msg_sender mp)) + 1 < 2 ^ 256 \<and>
         unat (totalPaymentsReceived s) + 1 < 2 ^ 256 \<and>
         unat (totalAmountCollected s) + unat (msg_value mp) < 2 ^ 256 \<and>
         callee_accepts mp (treasuryWallet s)"
    using processPayment_success_conditions [of mp s1 pid' t] e
    by (simp add: getTierPrice_def)
next
  assume h: "updateTreasuryWallet m s a = Inr s2"
  then have e: "s2 = s\<lparr>treasuryWallet := a\<rparr>"
    by (auto simp: updateTreasuryWallet_def split: option.splits if_splits)
  show "treasuryWallet s2 = a" using e by simp
  show "payments s2 = payments s" using e by simp
  show "refund_outcome (requestRefund mr s2 pid) = refund_outcome (requestRefund mr s pid)"
    unfolding e by (rule requestRefund_treasury)
  show "succeeds (processPayment mp s2 pid' t') \<longleftrightarrow>
         msg_value mp = getTierPrice s t' \<and> \<not> entered s \<and> \<not> paused s \<and> pid' \<noteq> [] \<and>
         payer (payments s pid') = 0 \<and>
         unat (userPaymentCount s (msg_sender mp)) + 1 < 2 ^ 256 \<and>
         unat (totalPaymentsReceived s) + 1 < 2 ^ 256 \<and>
         unat (totalAmountCollected s) + unat (msg_value mp) < 2 ^ 256 \<and>
         callee_accepts mp a"
    using processPayment_success_conditions [of mp s2 pid' t'] e
    by (simp add: getTierPrice_def)
next
  assume h: "updateRefundWindow m s w = Inr s3"
  then have e: "s3 = s\<lparr>refundWindow := w\<rparr>"
    by (auto simp: updateRefundWindow_def split: option.splits if_splits)
  show "refundWindow s3 = w" using e by simp
  show "payments s3 = payments s" using e by simp
  show "succeeds (requestRefund mr s3 pid) \<longleftrightarrow>
         msg_value mr = 0 \<and> \<not> entered s \<and> payer (payments s pid) = msg_sender mr \<and>
         completed (payments s pid) \<and>
         unat (timestamp (payments s pid)) + unat w < 2 ^ 256 \<and>
         unat (block_timestamp mr) \<le> unat (timestamp (payments s pid)) + unat w \<and>
         unat (amount (payments s pid)) \<le> balance s \<and>
         callee_accepts mr (msg_sender mr)"
    using requestRefund_success_conditions [of mr s3 pid] e by simp
qed

theorem admin_updates_effect_witness:
  "updateTierPrice owner_msg funded_paid BASIC 7 =
     Inr (funded_paid\<lparr>tierPrices := (tierPrices funded_paid)(BASIC := 7),
                       events := events funded_paid @ [TierPriceUpdated BASIC 7]\<rparr>) \<and>
   getTierPrice (funded_paid\<lparr>tierPrices := (tierPrices funded_paid)(BASIC := 7),
                       events := events funded_paid @ [TierPriceUpdated BASIC 7]\<rparr>) BASIC = 7 \<and>
   \<not> succeeds (processPayment bob_pays
       (funded_paid\<lparr>tierPrices := (tierPrices funded_paid)(BASIC := 7),
                     events := events funded_paid @ [TierPriceUpdated BASIC 7]\<rparr>)
       ''pay-2'' BASIC) \<and>
   succeeds (requestRefund alice_refunds funded_paid ''pay-1'') \<and>
   refund_outcome (requestRefund alice_refunds
       (funded_paid\<lparr>tierPrices := (tierPrices funded_paid)(BASIC := 7),
                       events := events funded_paid @ [TierPriceUpdated BASIC 7]\<rparr>) ''pay-1'')
     = refund_outcome (requestRefund alice_refunds funded_paid ''pay-1'') \<and>
   updateTreasuryWallet owner_msg funded_paid 9 = Inr (funded_paid\<lparr>treasuryWallet := 9\<rparr>) \<and>
   succeeds (processPayment bob_pays (funded_paid\<lparr>treasuryWallet := 9\<rparr>) ''pay-2'' BASIC) \<and>
   \<not> succeeds (processPayment (bob_pays\<lparr>callee_accepts := (\<lambda>to. to = 2)\<rparr>)
        (funded_paid\<lparr>treasuryWallet := 9\<rparr>) ''pay-2'' BASIC) \<and>
   refund_outcome (requestRefund alice_refunds (funded_paid\<lparr>treasuryWallet := 9\<rparr>) ''pay-1'')
     = refund_outcome (requestRefund alice_refunds funded_paid ''pay-1'') \<and>
   updateRefundWindow owner_msg funded_paid 7200 = Inr (funded_paid\<lparr>refundWindow := 7200\<rparr>) \<and>
   payments (funded_paid\<lparr>refundWindow := 7200\<rparr>) = payments funded_paid \<and>
   succeeds (requestRefund alice_refunds (funded_paid\<lparr>refundWindow := 7200\<rparr>) ''pay-1'') \<and>
   unat (block_timestamp alice_refunds)
     \<le> unat (timestamp (payments funded_paid ''pay-1'')) + unat (7200 :: uint256)"
proof -
  let ?s1 = "funded_paid\<lparr>tierPrices := (tierPrices funded_paid)(BASIC := 7),
                       events := events funded_paid @ [TierPriceUpdated BASIC 7]\<rparr>"
  let ?s2 = "funded_paid\<lparr>treasuryWallet := 9\<rparr>"
  let ?s3 = "funded_paid\<lparr>refundWindow := 7200\<rparr>"
  let ?bob' = "bob_pays\<lparr>callee_accepts := (\<lambda>to. to = 2)\<rparr>"
  have own: "onlyOwner owner_msg funded_paid = None"
    by (simp add: onlyOwner_def owner_msg_def funded_paid_eq deployed_eq)
  have u1: "updateTierPrice owner_msg funded_paid BASIC 7 = Inr ?s1"
    by (simp add: updateTierPrice_def own)
  have u2: "updateTreasuryWallet owner_msg funded_paid 9 = Inr ?s2"
    by (simp add: updateTreasuryWallet_def own)
  have u3: "updateRefundWindow owner_msg funded_paid 7200 = Inr ?s3"
    by (simp add: updateRefundWindow_def own)
  have f1: "msg_value bob_pays \<noteq> 7"
    by (simp add: bob_pays_def)
  have f2: "msg_value bob_pays = getTierPrice funded_paid BASIC \<and>
    \<not> entered funded_paid \<and> \<not> paused funded_paid \<and> ''pay-2'' \<noteq> [] \<and>
    payer (payments funded_paid ''pay-2'') = 0 \<and>
    unat (userPaymentCount funded_paid (msg_sender bob_pays)) + 1 < 2 ^ 256 \<and>
    unat (totalPaymentsReceived funded_paid) + 1 < 2 ^ 256 \<and>
    unat (totalAmountCollected funded_paid) + unat (msg_value bob_pays) < 2 ^ 256 \<and>
    callee_accepts bob_pays 9"
    by (simp add: bob_pays_def funded_paid_eq deployed_eq getTierPrice_def zero_Payment_def)
  have f3: "\<not> callee_accepts ?bob' 9" by simp
  have r: "msg_value alice_refunds = 0 \<and> \<not> entered funded_paid \<and>
    payer (payments funded_paid ''pay-1'') = msg_sender alice_refunds \<and>
    completed (payments funded_paid ''pay-1'') \<and>
    unat (timestamp (payments funded_paid ''pay-1'')) + unat (7200 :: uint256) < 2 ^ 256 \<and>
    unat (block_timestamp alice_refunds)
       \<le> unat (timestamp (payments funded_paid ''pay-1'')) + unat (7200 :: uint256) \<and>
    unat (amount (payments funded_paid ''pay-1'')) \<le> balance funded_paid \<and>
    callee_accepts alice_refunds (msg_sender alice_refunds)"
    by (simp add: alice_refunds_def funded_paid_eq deployed_eq)
  note T1 = admin_updates_effect [of owner_msg funded_paid BASIC 7 ?s1 bob_pays "''pay-2''"
            alice_refunds "''pay-1''" 9 ?s2 BASIC 7200 ?s3]
  note T2 = admin_updates_effect [of owner_msg funded_paid BASIC 7 ?s1 ?bob' "''pay-2''"
            alice_refunds "''pay-1''" 9 ?s2 BASIC 7200 ?s3]
  have c1: "getTierPrice ?s1 BASIC = 7"
    and c2: "\<not> succeeds (processPayment bob_pays ?s1 ''pay-2'' BASIC)"
    and c3: "refund_outcome (requestRefund alice_refunds ?s1 ''pay-1'')
              = refund_outcome (requestRefund alice_refunds funded_paid ''pay-1'')"
    using T1 u1 f1 by blast+
  have c4: "succeeds (processPayment bob_pays ?s2 ''pay-2'' BASIC)"
    and c5: "refund_outcome (requestRefund alice_refunds ?s2 ''pay-1'')
              = refund_outcome (requestRefund alice_refunds funded_paid ''pay-1'')"
    using T1 u2 f2 by blast+
  have c6: "\<not> succeeds (processPayment ?bob' ?s2 ''pay-2'' BASIC)"
    using T2 u2 f3 by blast
  have c7: "payments ?s3 = payments funded_paid"
    and c8: "succeeds (requestRefund alice_refunds ?s3 ''pay-1'')"
    using T1 u3 r by blast+
  show ?thesis
    using u1 u2 u3 c1 c2 c3 c4 c5 c6 c7 c8 r refund_in_window_succeeds by blast
qed

text \<open>
  C8 as stated fails for \<open>updateRefundWindow\<close>: the payment \<open>pay-1\<close>, recorded at
  time 1000 under a window of 24 hours, can be refunded at time 4600; once the owner has
  set the window to 60 seconds, the same request reverts.
\<close>

theorem refund_window_update_reaches_recorded_payments:
  "succeeds (requestRefund alice_refunds funded_paid ''pay-1'') \<and>
   updateRefundWindow owner_msg funded_paid 60 = Inr (funded_paid\<lparr>refundWindow := 60\<rparr>) \<and>
   requestRefund alice_refunds (funded_paid\<lparr>refundWindow := 60\<rparr>) ''pay-1''
     = Inl (Revert ''Refund window expired'')"
proof -
  have "updateRefundWindow owner_msg funded_paid 60 = Inr (funded_paid\<lparr>refundWindow := 60\<rparr>)"
    by (simp add: updateRefundWindow_def onlyOwner_def owner_msg_def funded_paid_eq deployed_eq)
  moreover have "requestRefund alice_refunds (funded_paid\<lparr>refundWindow := 60\<rparr>) ''pay-1''
     = Inl (Revert ''Refund window expired'')"
    by (simp add: requestRefund_def funded_paid_eq deployed_eq alice_refunds_def Let_def
          checked_add_def)
  ultimately show ?thesis using refund_in_window_succeeds by simp
qed

section \<open>The store and the webhook receiver\<close>

lemma length_digest_hex: "length (digest_hex d) = 64"
  by (simp add: digest_hex_def)

lemma digest_hex_not_empty: "digest_hex d \<noteq> []"
  using length_digest_hex [of d] by auto

lemma verify_valid:
  "valid_signature env request \<Longrightarrow>
   verifyX402Signature env (rawBody request) (the (x402_signature request))
     (the (X402_WEBHOOK_SECRET env)) = Inr True"
  by (simp add: valid_signature_def verifyX402Signature_def timingSafeEqual_def Let_def)

lemma wrong_length_throws:
  "length signature \<noteq> 64 \<Longrightarrow> verifyX402Signature env payload signature secret = Inl RangeError"
  by (simp add: verifyX402Signature_def timingSafeEqual_def length_digest_hex Let_def)

lemma valid_signature_later:
  "valid_signature (env\<lparr>now := n\<rparr>) request = valid_signature env request"
  by (simp add: valid_signature_def)

lemma updateStatus_existing:
  assumes "tbl pid = Some row"
  shows "\<exists>row'. updateStatus n tbl pid st td = Inr (tbl(pid \<mapsto> row'), Some row') \<and>
           p_status row' = st \<and> p_briefId row' = p_briefId row \<and>
           p_brandId row' = p_brandId row \<and> p_expiresAt row' = p_expiresAt row \<and>
           p_completedAt row' = (if st = COMPLETED then Some n else p_completedAt row)"
  using assms by (auto simp: updateStatus_def Let_def split: option.splits)

lemma updateStatus_unknown:
  "tbl pid = None \<Longrightarrow> updateStatus n tbl pid st td = Inl RecordNotFound"
  by (simp add: updateStatus_def)

lemma update_all_last:
  assumes "tbl pid = Some row" and "us \<noteq> []"
  shows "\<exists>tbl' row'. update_all n tbl pid us = Inr tbl' \<and> tbl' pid = Some row' \<and>
           p_status row' = fst (last us)"
  using assms
proof (induction us arbitrary: tbl row)
  case Nil
  then show ?case by simp
next
  case (Cons u us)
  obtain row1 where u:
    "updateStatus n tbl pid (fst u) (snd u) = Inr (tbl(pid \<mapsto> row1), Some row1)"
    and s: "p_status row1 = fst u"
    using updateStatus_existing [of tbl pid row n "fst u" "snd u"] Cons.prems(1) by blast
  show ?case
  proof (cases "us = []")
    case True
    then show ?thesis using u s by simp
  next
    case False
    have ih: "\<exists>tbl' row'. update_all n (tbl(pid \<mapsto> row1)) pid us = Inr tbl' \<and>
                tbl' pid = Some row' \<and> p_status row' = fst (last us)"
      by (rule Cons.IH [of "tbl(pid \<mapsto> row1)" row1]) (simp, rule False)
    have "update_all n tbl pid (u # us) = update_all n (tbl(pid \<mapsto> row1)) pid us"
      using u by simp
    moreover have "last (u # us) = last us" using False by simp
    ultimately show ?thesis using ih by simp
  qed
qed

text \<open>What the receiver does with a validly signed, well-formed update of a known payment.\<close>

lemma POST_webhook_valid:
  assumes "valid_signature env request"
    and "JSON_parse env (rawBody request) = Some payload"
    and "w_paymentId payload \<noteq> []" and "w_status payload = Some st"
    and "table wld (w_paymentId payload) = Some row"
  shows "\<exists>row'. POST_webhook env request wld =
           (Response 200 (WebhookOk (w_paymentId payload) st),
            wld\<lparr>table := (table wld)(w_paymentId payload \<mapsto> row'),
                 generation_calls := generation_calls wld @
                   (if st = COMPLETED \<and> \<not> falsy (p_briefId row)
                    then [(the (p_briefId row), p_brandId row)] else [])\<rparr>) \<and>
           p_status row' = st \<and> p_briefId row' = p_briefId row \<and>
           p_brandId row' = p_brandId row \<and> p_expiresAt row' = p_expiresAt row \<and>
           p_completedAt row' = (if st = COMPLETED then Some (now env) else p_completedAt row)"
proof -
  obtain row' where u: "updateStatus (now env) (table wld) (w_paymentId payload) st
       (Some \<lparr>t_transactionHash = w_transactionHash payload,
              t_blockNumber = w_blockNumber payload, t_gasUsed = w_gasUsed payload\<rparr>)
        = Inr ((table wld)(w_paymentId payload \<mapsto> row'), Some row')"
    and r: "p_status row' = st" "p_briefId row' = p_briefId row"
       "p_brandId row' = p_brandId row" "p_expiresAt row' = p_expiresAt row"
       "p_completedAt row' = (if st = COMPLETED then Some (now env) else p_completedAt row)"
    using updateStatus_existing [of "table wld" "w_paymentId payload" row] assms(5) by blast
  have v: "\<not> (falsy (x402_signature request) \<or> falsy (X402_WEBHOOK_SECRET env))"
    using assms(1) by (simp add: valid_signature_def)
  have "POST_webhook env request wld =
           (Response 200 (WebhookOk (w_paymentId payload) st),
            wld\<lparr>table := (table wld)(w_paymentId payload \<mapsto> row'),
                 generation_calls := generation_calls wld @
                   (if st = COMPLETED \<and> \<not> falsy (p_briefId row)
                    then [(the (p_briefId row), p_brandId row)] else [])\<rparr>)"
    unfolding POST_webhook_def using v verify_valid [OF assms(1)] assms(2,3,4) u r
    by (simp add: Let_def)
  then show ?thesis using r by blast
qed

lemma two_deliveries:
  assumes "valid_signature env request"
    and "JSON_parse env (rawBody request) = Some payload"
    and "w_paymentId payload \<noteq> []" and "w_status payload = Some COMPLETED"
    and "table wld (w_paymentId payload) = Some row"
  shows
    "fst (POST_webhook env request wld) =
       Response 200 (WebhookOk (w_paymentId payload) COMPLETED) \<and>
     fst (POST_webhook (env\<lparr>now := later\<rparr>) request (snd (POST_webhook env request wld))) =
       Response 200 (WebhookOk (w_paymentId payload) COMPLETED) \<and>
     map_option p_status (table (snd (POST_webhook env request wld)) (w_paymentId payload))
       = Some COMPLETED \<and>
     map_option p_status
       (table (snd (POST_webhook (env\<lparr>now := later\<rparr>) request
                      (snd (POST_webhook env request wld)))) (w_paymentId payload))
       = Some COMPLETED \<and>
     generation_calls (snd (POST_webhook (env\<lparr>now := later\<rparr>) request
                              (snd (POST_webhook env request wld)))) =
       generation_calls wld @
         (if falsy (p_briefId row) then []
          else [(the (p_briefId row), p_brandId row), (the (p_briefId row), p_brandId row)])"
proof -
  obtain row1 where p1: "POST_webhook env request wld =
           (Response 200 (WebhookOk (w_paymentId payload) COMPLETED),
            wld\<lparr>table := (table wld)(w_paymentId payload \<mapsto> row1),
                 generation_calls := generation_calls wld @
                   (if COMPLETED = COMPLETED \<and> \<not> falsy (p_briefId row)
                    then [(the (p_briefId row), p_brandId row)] else [])\<rparr>)"
    and r1: "p_status row1 = COMPLETED" "p_briefId row1 = p_briefId row"
      "p_brandId row1 = p_brandId row"
    using POST_webhook_valid [OF assms] by blast
  let ?w1 = "snd (POST_webhook env request wld)"
  have t1: "table ?w1 (w_paymentId payload) = Some row1" using p1 by simp
  have v2: "valid_signature (env\<lparr>now := later\<rparr>) request"
    using assms(1) by (simp add: valid_signature_later)
  have j2: "JSON_parse (env\<lparr>now := later\<rparr>) (rawBody request) = Some payload"
    using assms(2) by simp
  obtain row2 where p2: "POST_webhook (env\<lparr>now := later\<rparr>) request ?w1 =
           (Response 200 (WebhookOk (w_paymentId payload) COMPLETED),
            ?w1\<lparr>table := (table ?w1)(w_paymentId payload \<mapsto> row2),
                 generation_calls := generation_calls ?w1 @
                   (if COMPLETED = COMPLETED \<and> \<not> falsy (p_briefId row1)
                    then [(the (p_briefId row1), p_brandId row1)] else [])\<rparr>)"
    and r2: "p_status row2 = COMPLETED"
    using POST_webhook_valid [OF v2 j2 assms(3,4) t1] by blast
  show ?thesis
    unfolding p2 unfolding p1 using r1 r2 by simp
qed

lemma POST_webhook_not_404: "fst (POST_webhook env request wld) \<noteq> Response 404 b"
  by (auto simp: POST_webhook_def failed_500_def updateStatus_def Let_def
        split: sum.splits bool.splits option.splits prod.splits)

lemma GET_existing:
  "table wld pid = Some row \<Longrightarrow> pid \<noteq> [] \<Longrightarrow>
   GET_request env (Some pid) wld =
     Response 200 (StatusBody (p_paymentId row) (p_status row) (p_amount row) (p_currency row)
       (p_network row) (p_createdAt row) (p_expiresAt row) (p_completedAt row)
       (p_transactionHash row))"
  by (simp add: GET_request_def falsy_def getByPaymentId_def)

lemma POST_request_created:
  assumes "POST_request env uuid url body wld = (Response 201 b, wld1)"
  shows "\<exists>row. table wld1 uuid = Some row \<and> p_status row = PENDING \<and>
           p_expiresAt row = Some (hours_plus_24 env (now env))"
  using assms
  by (auto simp: POST_request_def createRequest_def Let_def split: if_splits option.splits)

subsection \<open>The examples, evaluated\<close>

lemma signed_valid: "valid_signature example_env (signed body)"
  by (simp add: valid_signature_def example_env_def signed_def falsy_def digest_hex_not_empty)

lemma example_facts:
  "JSON_parse example_env (rawBody (signed ''completed pay-1'')) = Some example_payload"
  "w_paymentId example_payload \<noteq> []"
  "w_status example_payload = Some COMPLETED"
  "table example_world (w_paymentId example_payload) = Some example_row"
  by (simp_all add: example_env_def signed_def example_parse_def example_payload_def
        example_world_def)

lemma example_more:
  "w_paymentId example_payload = ''pay-1''" "generation_calls example_world = []"
  "\<not> falsy (p_briefId example_row)" "the (p_briefId example_row) = ''brief-1''"
  "p_brandId example_row = ''brand-1''" "p_expiresAt example_row = Some 100000"
  "now example_env = 200000" "table example_world = [''pay-1'' \<mapsto> example_row]"
  "example_env\<lparr>now := 200000\<rparr> = example_env"
  by (simp_all add: example_payload_def example_world_def example_row_def falsy_def
        example_env_def)

lemma example_delivery:
  "\<exists>row'. POST_webhook example_env (signed ''completed pay-1'') example_world =
     (Response 200 (WebhookOk ''pay-1'' COMPLETED),
      \<lparr>table = [''pay-1'' \<mapsto> row'], generation_calls = [(''brief-1'', ''brand-1'')]\<rparr>) \<and>
     p_status row' = COMPLETED \<and> p_expiresAt row' = Some 100000 \<and>
     p_completedAt row' = Some 200000"
  using POST_webhook_valid [OF signed_valid example_facts] example_more
  by (auto simp: example_world_def)

lemma example_creation:
  "POST_request (example_env\<lparr>now := 0\<rparr>) ''pay-2'' ''https://pay'' example_body empty_world =
     (Response 201 (CreatedBody ''pay-2'' ''https://pay/pay-2'' ''5000000000000000'' 86400000
        PENDING),
      \<lparr>table = [''pay-2'' \<mapsto>
          \<lparr>p_paymentId = ''pay-2'', p_briefId = Some ''brief-2'', p_brandId = ''brand-1'',
           p_creatorId = None, p_amount = ''5000000000000000'', p_currency = Some ''ETH'',
           p_network = Some ''scroll-sepolia'', p_paymentUrl = Some ''https://pay/pay-2'',
           p_expiresAt = Some 86400000,
           p_memo = Some ''Veo prompt generation - basic_prompt'', p_status = PENDING,
           p_createdAt = 0, p_completedAt = None, p_transactionHash = None,
           p_blockNumber = None, p_gasUsed = None\<rparr>],
       generation_calls = []\<rparr>)"
  by (simp add: POST_request_def example_env_def example_body_def empty_world_def
        createRequest_def falsy_def Let_def)

section \<open>Claims about the store and the webhook receiver\<close>

text \<open>
  C1 (as the code has it). \<open>updateStatus\<close> has no transition graph: every status update
  of an existing record is applied, whatever the status before it, also a terminal one.
  After any non-empty sequence of updates the stored status is the status of the last
  update. The one update that is rejected is that of an unknown paymentId.
\<close>

theorem updateStatus_applies_every_update:
  "(tbl pid = Some row \<and> us \<noteq> [] \<longrightarrow>
      (\<exists>tbl' row'. update_all n tbl pid us = Inr tbl' \<and> tbl' pid = Some row' \<and>
         p_status row' = fst (last us))) \<and>
   (tbl pid = None \<longrightarrow> updateStatus n tbl pid st td = Inl RecordNotFound)"
  using update_all_last [of tbl pid row us n] updateStatus_unknown [of tbl pid n st td]
  by blast

theorem updateStatus_applies_every_update_witness:
  "[''pay-1'' \<mapsto> example_row] ''pay-1'' = Some example_row \<and>
   [(COMPLETED, None), (FAILED, None), (PENDING, None)] \<noteq> [] \<and>
   (\<exists>tbl' row'. update_all 5 [''pay-1'' \<mapsto> example_row] ''pay-1''
        [(COMPLETED, None), (FAILED, None), (PENDING, None)] = Inr tbl' \<and>
      tbl' ''pay-1'' = Some row' \<and> p_status row' = PENDING) \<and>
   [''pay-1'' \<mapsto> example_row] ''pay-9'' = None \<and>
   updateStatus 5 [''pay-1'' \<mapsto> example_row] ''pay-9'' COMPLETED None = Inl RecordNotFound"
  using updateStatus_applies_every_update [of "[''pay-1'' \<mapsto> example_row]" "''pay-1''"
      example_row "[(COMPLETED, None), (FAILED, None), (PENDING, None)]" 5]
    updateStatus_applies_every_update [of "[''pay-1'' \<mapsto> example_row]" "''pay-9''"
      example_row "[]" 5 COMPLETED None]
  by simp

text \<open>
  C1 as stated fails: a record whose status is the terminal COMPLETED is moved back to
  PENDING by an update that asks for it.
\<close>

theorem terminal_status_is_overwritten:
  "p_status (example_row\<lparr>p_status := COMPLETED\<rparr>) = COMPLETED \<and>
   updateStatus 200000 [''pay-1'' \<mapsto> example_row\<lparr>p_status := COMPLETED\<rparr>] ''pay-1''
       PENDING None
     = Inr ([''pay-1'' \<mapsto> example_row\<lparr>p_status := PENDING\<rparr>],
            Some (example_row\<lparr>p_status := PENDING\<rparr>))"
  by (simp add: updateStatus_def Let_def)

text \<open>
  C2 (as the code has it). Two deliveries of the same validly signed COMPLETED webhook
  for a known payment are both answered 200 with status COMPLETED, and the stored status
  is COMPLETED after each. Each delivery sends its own generation request: after both,
  two requests have been added for a payment that has a briefId, and none for a payment
  without one.
\<close>

theorem completed_webhook_twice:
  assumes "valid_signature env request"
    and "JSON_parse env (rawBody request) = Some payload"
    and "w_paymentId payload \<noteq> []" and "w_status payload = Some COMPLETED"
    and "table wld (w_paymentId payload) = Some row"
  shows
    "fst (POST_webhook env request wld) =
       Response 200 (WebhookOk (w_paymentId payload) COMPLETED) \<and>
     fst (POST_webhook (env\<lparr>now := later\<rparr>) request (snd (POST_webhook env request wld))) =
       Response 200 (WebhookOk (w_paymentId payload) COMPLETED) \<and>
     map_option p_status (table (snd (POST_webhook env request wld)) (w_paymentId payload))
       = Some COMPLETED \<and>
     map_option p_status
       (table (snd (POST_webhook (env\<lparr>now := later\<rparr>) request
                      (snd (POST_webhook env request wld)))) (w_paymentId payload))
       = Some COMPLETED \<and>
     generation_calls (snd (POST_webhook (env\<lparr>now := later\<rparr>) request
                              (snd (POST_webhook env request wld)))) =
       generation_calls wld @
         (if falsy (p_briefId row) then []
          else [(the (p_briefId row), p_brandId row), (the (p_briefId row), p_brandId row)])"
  using assms by (rule two_deliveries)

theorem completed_webhook_twice_witness:
  "valid_signature example_env (signed ''completed pay-1'') \<and>
   JSON_parse example_env (rawBody (signed ''completed pay-1'')) = Some example_payload \<and>
   w_paymentId example_payload \<noteq> [] \<and> w_status example_payload = Some COMPLETED \<and>
   table example_world (w_paymentId example_payload) = Some example_row \<and>
   fst (POST_webhook example_env (signed ''completed pay-1'') example_world) =
       Response 200 (WebhookOk ''pay-1'' COMPLETED) \<and>
   fst (POST_webhook (example_env\<lparr>now := 300000\<rparr>) (signed ''completed pay-1'')
          (snd (POST_webhook example_env (signed ''completed pay-1'') example_world))) =
       Response 200 (WebhookOk ''pay-1'' COMPLETED) \<and>
   map_option p_status
       (table (snd (POST_webhook (example_env\<lparr>now := 300000\<rparr>) (signed ''completed pay-1'')
          (snd (POST_webhook example_env (signed ''completed pay-1'') example_world))))
          ''pay-1'')
       = Some COMPLETED \<and>
   generation_calls
       (snd (POST_webhook (example_env\<lparr>now := 300000\<rparr>) (signed ''completed pay-1'')
          (snd (POST_webhook example_env (signed ''completed pay-1'') example_world)))) =
       [(''brief-1'', ''brand-1''), (''brief-1'', ''brand-1'')]"
  using completed_webhook_twice [OF signed_valid example_facts, of 300000]
    signed_valid [of "''completed pay-1''"] example_facts example_more
  by simp

text \<open>
  C2 as stated fails: the payment \<open>pay-1\<close> has the brief \<open>brief-1\<close>, no generation
  request has been sent, and the same COMPLETED webhook delivered twice sends two.
\<close>

theorem same_webhook_twice_triggers_twice:
  "generation_calls example_world = [] \<and>
   generation_calls
     (snd (POST_webhook example_env (signed ''completed pay-1'')
        (snd (POST_webhook example_env (signed ''completed pay-1'') example_world)))) =
     [(''brief-1'', ''brand-1''), (''brief-1'', ''brand-1'')]"
  using two_deliveries [OF signed_valid example_facts, of 200000] example_more
  by simp

text \<open>
  C3 (as the code has it). The receiver does not look at \<open>expiresAt\<close>: a validly signed
  COMPLETED webhook for a known payment sets the status to COMPLETED and \<open>completedAt\<close> to
  the time of arrival, whether that time is before or after \<open>expiresAt\<close>, which it
  leaves as it is.
\<close>

theorem completion_ignores_expiry:
  assumes "valid_signature env request"
    and "JSON_parse env (rawBody request) = Some payload"
    and "w_paymentId payload \<noteq> []" and "w_status payload = Some COMPLETED"
    and "table wld (w_paymentId payload) = Some row"
  shows "\<exists>row'. table (snd (POST_webhook env request wld)) (w_paymentId payload) = Some row' \<and>
           p_status row' = COMPLETED \<and> p_completedAt row' = Some (now env) \<and>
           p_expiresAt row' = p_expiresAt row"
  using POST_webhook_valid [OF assms] by auto

theorem completion_ignores_expiry_witness:
  "valid_signature example_env (signed ''completed pay-1'') \<and>
   JSON_parse example_env (rawBody (signed ''completed pay-1'')) = Some example_payload \<and>
   w_paymentId example_payload \<noteq> [] \<and> w_status example_payload = Some COMPLETED \<and>
   table example_world (w_paymentId example_payload) = Some example_row \<and>
   p_expiresAt example_row = Some 100000 \<and> now example_env = 200000 \<and>
   (\<exists>row'. table (snd (POST_webhook example_env (signed ''completed pay-1'') example_world))
              ''pay-1'' = Some row' \<and>
      p_status row' = COMPLETED \<and> p_completedAt row' = Some 200000 \<and>
      p_expiresAt row' = Some 100000)"
  using completion_ignores_expiry [OF signed_valid example_facts]
    signed_valid [of "''completed pay-1''"] example_facts example_more
  by simp

text \<open>
  C3 as stated fails: \<open>pay-1\<close> is PENDING and expired at 100000; the COMPLETED webhook
  that arrives at 200000 makes it COMPLETED.
\<close>

theorem late_completion_is_applied:
  "map_option p_expiresAt (table example_world ''pay-1'') = Some (Some 100000) \<and>
   now example_env = 200000 \<and>
   map_option p_status (table example_world ''pay-1'') = Some PENDING \<and>
   map_option p_status
     (table (snd (POST_webhook example_env (signed ''completed pay-1'') example_world))
        ''pay-1'') = Some COMPLETED"
proof -
  have "map_option p_expiresAt (table example_world ''pay-1'') = Some (Some 100000)"
    "now example_env = 200000"
    "map_option p_status (table example_world ''pay-1'') = Some PENDING"
    by (simp_all add: example_world_def example_row_def example_env_def)
  then show ?thesis using example_delivery by auto
qed

text \<open>
  C7, where the code departs from it. The receiver never answers 404: the update of an
  unknown paymentId throws, the null test after it is never reached, and the handler's
  catch answers 500. Here the validly signed webhook for \<open>pay-9\<close>, a payment that does
  not exist, gets 500 (the store is unchanged).
\<close>

theorem webhook_unknown_payment_is_500:
  "status_code (fst (POST_webhook env request wld)) \<noteq> 404 \<and>
   valid_signature example_env (signed ''completed pay-9'') \<and>
   table example_world ''pay-9'' = None \<and>
   POST_webhook example_env (signed ''completed pay-9'') example_world =
     (Response 500 (ErrorBody ''Webhook processing failed''), example_world)"
proof -
  have a: "status_code (fst (POST_webhook env request wld)) \<noteq> 404"
    using POST_webhook_not_404 [of env request wld]
    by (cases "fst (POST_webhook env request wld)") auto
  have v: "\<not> (falsy (x402_signature (signed ''completed pay-9''))
               \<or> falsy (X402_WEBHOOK_SECRET example_env))"
    using signed_valid [of "''completed pay-9''"] by (simp add: valid_signature_def)
  have p: "JSON_parse example_env (rawBody (signed ''completed pay-9''))
             = Some (example_payload\<lparr>w_paymentId := ''pay-9''\<rparr>)"
    by (simp add: example_env_def signed_def example_parse_def)
  have n: "table example_world ''pay-9'' = None" by (simp add: example_world_def)
  have "POST_webhook example_env (signed ''completed pay-9'') example_world =
     (Response 500 (ErrorBody ''Webhook processing failed''), example_world)"
    unfolding POST_webhook_def
    using v verify_valid [OF signed_valid, of "''completed pay-9''"] p n
    by (simp add: updateStatus_unknown example_payload_def failed_500_def)
  then show ?thesis using a n signed_valid by simp
qed

text \<open>
  C9 (as the code has it). The status handler reports the status that is stored,
  whatever the time of the request: for a payment request that was created and never
  updated this is PENDING, before and after its expiry.
\<close>

theorem GET_reports_stored_status:
  "(table wld pid = Some row \<and> pid \<noteq> [] \<longrightarrow>
      status_code (GET_request env (Some pid) wld) = 200 \<and>
      reported_status (GET_request env (Some pid) wld) = Some (p_status row)) \<and>
   (POST_request env0 uuid url body wld0 = (Response 201 b, wld1) \<and> uuid \<noteq> [] \<longrightarrow>
      reported_status (GET_request env (Some uuid) wld1) = Some PENDING)"
proof (intro conjI impI)
  assume "table wld pid = Some row \<and> pid \<noteq> []"
  then have g: "GET_request env (Some pid) wld =
     Response 200 (StatusBody (p_paymentId row) (p_status row) (p_amount row) (p_currency row)
       (p_network row) (p_createdAt row) (p_expiresAt row) (p_completedAt row)
       (p_transactionHash row))" by (simp add: GET_existing)
  show "status_code (GET_request env (Some pid) wld) = 200" unfolding g by simp
  show "reported_status (GET_request env (Some pid) wld) = Some (p_status row)"
    unfolding g by simp
next
  assume h: "POST_request env0 uuid url body wld0 = (Response 201 b, wld1) \<and> uuid \<noteq> []"
  then obtain row where r: "table wld1 uuid = Some row" "p_status row = PENDING"
    using POST_request_created [of env0 uuid url body wld0 b wld1] by blast
  show "reported_status (GET_request env (Some uuid) wld1) = Some PENDING"
    using GET_existing [OF r(1), of env] h r(2) by simp
qed

theorem GET_reports_stored_status_witness:
  "POST_request (example_env\<lparr>now := 0\<rparr>) ''pay-2'' ''https://pay'' example_body empty_world =
     (Response 201 (CreatedBody ''pay-2'' ''https://pay/pay-2'' ''5000000000000000'' 86400000
        PENDING),
      snd (POST_request (example_env\<lparr>now := 0\<rparr>) ''pay-2'' ''https://pay'' example_body
             empty_world)) \<and>
   ''pay-2'' \<noteq> [] \<and>
   reported_status (GET_request example_env (Some ''pay-2'')
      (snd (POST_request (example_env\<lparr>now := 0\<rparr>) ''pay-2'' ''https://pay'' example_body
              empty_world))) = Some PENDING \<and>
   table example_world ''pay-1'' = Some example_row \<and>
   status_code (GET_request example_env (Some ''pay-1'') example_world) = 200 \<and>
   reported_status (GET_request example_env (Some ''pay-1'') example_world)
     = Some (p_status example_row)"
proof -
  let ?w1 = "snd (POST_request (example_env\<lparr>now := 0\<rparr>) ''pay-2'' ''https://pay''
                    example_body empty_world)"
  have c: "POST_request (example_env\<lparr>now := 0\<rparr>) ''pay-2'' ''https://pay'' example_body
             empty_world =
     (Response 201 (CreatedBody ''pay-2'' ''https://pay/pay-2'' ''5000000000000000'' 86400000
        PENDING), ?w1)"
    by (simp add: example_creation)
  have t: "table example_world ''pay-1'' = Some example_row" by (simp add: example_world_def)
  show ?thesis
    using GET_reports_stored_status [of example_world "''pay-1''" example_row example_env
        "example_env\<lparr>now := 0\<rparr>" "''pay-2''" "''https://pay''" example_body empty_world
        "CreatedBody ''pay-2'' ''https://pay/pay-2'' ''5000000000000000'' 86400000 PENDING" ?w1]
      c t
    by simp
qed

text \<open>
  C9 as stated fails: the request \<open>pay-2\<close> is created at time 0 and expires at
  86400000; nothing is paid; the status asked for at 90000000 is PENDING.
\<close>

theorem GET_after_expiry_reports_pending:
  "map_option p_expiresAt
     (table (snd (POST_request (example_env\<lparr>now := 0\<rparr>) ''pay-2'' ''https://pay''
                    example_body empty_world)) ''pay-2'') = Some (Some 86400000) \<and>
   now (example_env\<lparr>now := 90000000\<rparr>) = 90000000 \<and>
   GET_request (example_env\<lparr>now := 90000000\<rparr>) (Some ''pay-2'')
     (snd (POST_request (example_env\<lparr>now := 0\<rparr>) ''pay-2'' ''https://pay'' example_body
             empty_world)) =
     Response 200 (StatusBody ''pay-2'' PENDING ''5000000000000000'' (Some ''ETH'')
       (Some ''scroll-sepolia'') 0 (Some 86400000) None None)"
  by (simp add: example_creation GET_request_def falsy_def getByPaymentId_def)

text \<open>
  C10 (as the code has it). When a secret is configured and the signature header is
  present, not empty, and of a byte length other than 64, the comparison throws instead
  of returning false, the handler answers 500 and the store is unchanged. When the
  header is absent or empty, or no secret is configured, the handler answers 400 before
  it comes to the comparison, and the store is unchanged as well.
\<close>

theorem wrong_length_signature_is_500:
  "(\<not> falsy (x402_signature request) \<and> \<not> falsy (X402_WEBHOOK_SECRET env) \<and>
    length (the (x402_signature request)) \<noteq> 64 \<longrightarrow>
      verifyX402Signature env (rawBody request) (the (x402_signature request))
        (the (X402_WEBHOOK_SECRET env)) = Inl RangeError \<and>
      POST_webhook env request wld =
        (Response 500 (ErrorBody ''Webhook processing failed''), wld)) \<and>
   (falsy (x402_signature request) \<or> falsy (X402_WEBHOOK_SECRET env) \<longrightarrow>
      POST_webhook env request wld =
        (Response 400 (ErrorBody ''Invalid webhook configuration''), wld))"
proof (intro conjI impI)
  assume h: "\<not> falsy (x402_signature request) \<and> \<not> falsy (X402_WEBHOOK_SECRET env) \<and>
    length (the (x402_signature request)) \<noteq> 64"
  then have t: "verifyX402Signature env (rawBody request) (the (x402_signature request))
        (the (X402_WEBHOOK_SECRET env)) = Inl RangeError"
    by (simp add: wrong_length_throws)
  then show "verifyX402Signature env (rawBody request) (the (x402_signature request))
        (the (X402_WEBHOOK_SECRET env)) = Inl RangeError" .
  show "POST_webhook env request wld =
        (Response 500 (ErrorBody ''Webhook processing failed''), wld)"
    using h t by (simp add: POST_webhook_def failed_500_def)
next
  assume "falsy (x402_signature request) \<or> falsy (X402_WEBHOOK_SECRET env)"
  then show "POST_webhook env request wld =
        (Response 400 (ErrorBody ''Invalid webhook configuration''), wld)"
    by (simp add: POST_webhook_def)
qed

theorem wrong_length_signature_is_500_witness:
  "\<not> falsy (x402_signature \<lparr>rawBody = ''completed pay-1'', x402_signature = Some ''abc''\<rparr>) \<and>
   \<not> falsy (X402_WEBHOOK_SECRET example_env) \<and>
   length (the (x402_signature \<lparr>rawBody = ''completed pay-1'', x402_signature = Some ''abc''\<rparr>))
     \<noteq> 64 \<and>
   POST_webhook example_env \<lparr>rawBody = ''completed pay-1'', x402_signature = Some ''abc''\<rparr>
     example_world = (Response 500 (ErrorBody ''Webhook processing failed''), example_world) \<and>
   falsy (X402_WEBHOOK_SECRET (example_env\<lparr>X402_WEBHOOK_SECRET := None\<rparr>)) \<and>
   POST_webhook (example_env\<lparr>X402_WEBHOOK_SECRET := None\<rparr>)
     \<lparr>rawBody = ''completed pay-1'', x402_signature = Some ''abc''\<rparr> example_world =
     (Response 400 (ErrorBody ''Invalid webhook configuration''), example_world) \<and>
   falsy (x402_signature \<lparr>rawBody = ''completed pay-1'', x402_signature = None\<rparr>) \<and>
   POST_webhook example_env \<lparr>rawBody = ''completed pay-1'', x402_signature = None\<rparr>
     example_world =
     (Response 400 (ErrorBody ''Invalid webhook configuration''), example_world)"
proof -
  have a: "\<not> falsy (x402_signature
             \<lparr>rawBody = ''completed pay-1'', x402_signature = Some ''abc''\<rparr>)"
    by (simp add: falsy_def)
  have b: "\<not> falsy (X402_WEBHOOK_SECRET example_env)" by (simp add: falsy_def example_env_def)
  have c: "length (the (x402_signature
             \<lparr>rawBody = ''completed pay-1'', x402_signature = Some ''abc''\<rparr>)) \<noteq> 64"
    by simp
  have d: "falsy (X402_WEBHOOK_SECRET (example_env\<lparr>X402_WEBHOOK_SECRET := None\<rparr>))"
    by (simp add: falsy_def)
  have e: "falsy (x402_signature \<lparr>rawBody = ''completed pay-1'', x402_signature = None\<rparr>)"
    by (simp add: falsy_def)
  show ?thesis
    using wrong_length_signature_is_500
            [of "\<lparr>rawBody = ''completed pay-1'', x402_signature = Some ''abc''\<rparr>"
                example_env example_world]
          wrong_length_signature_is_500
            [of "\<lparr>rawBody = ''completed pay-1'', x402_signature = Some ''abc''\<rparr>"
                "example_env\<lparr>X402_WEBHOOK_SECRET := None\<rparr>" example_world]
          wrong_length_signature_is_500
            [of "\<lparr>rawBody = ''completed pay-1'', x402_signature = None\<rparr>"
                example_env example_world]
          a b c d e
    by blast
qed

text \<open>
  C10 as stated fails at the empty header value: its byte length, 0, is not 64, and the
  handler answers 400 before it comes to the comparison.
\<close>

theorem empty_signature_is_400:
  "length (the (x402_signature \<lparr>rawBody = ''completed pay-1'', x402_signature = Some []\<rparr>))
     \<noteq> 64 \<and>
   POST_webhook example_env \<lparr>rawBody = ''completed pay-1'', x402_signature = Some []\<rparr>
     example_world = (Response 400 (ErrorBody ''Invalid webhook configuration''), example_world)"
  by (simp add: POST_webhook_def falsy_def)

end
